theory Spec2Isabelle
  imports Main "HOL-Library.Monad_Syntax"
begin

section \<open>Timestamps and their ISO 8601 text\<close>

text \<open>
  A timestamp is the time value of a JavaScript \<^verbatim>\<open>Date\<close>: a whole number of
  milliseconds since 1970-01-01T00:00:00Z, at most 8.64e15 in absolute value. An Invalid
  Date (time value NaN) is no timestamp and is not a value of this model; on one,
  \<^verbatim>\<open>toISOString\<close> throws a RangeError.

  The store writes a timestamp with \<^verbatim>\<open>toISOString()\<close> and reads it back
  with \<^verbatim>\<open>new Date(string)\<close>. Both are functions of the runtime, modelled here
  after ECMA-262: the text is \<^verbatim>\<open>YYYY-MM-DDTHH:mm:ss.sssZ\<close>, with the
  expanded year \<^verbatim>\<open>+YYYYYY\<close> or \<^verbatim>\<open>-YYYYYY\<close> outside 0..9999.
\<close>

type_synonym Date = int

definition msPerDay :: int where
  "msPerDay = 86400000"

definition valid_time :: "Date \<Rightarrow> bool" where
  "valid_time t = (\<bar>t\<bar> \<le> 8640000000000000)"

text \<open>
  Day number (days since the epoch) to proleptic Gregorian year, month (1..12) and day
  of the month (1..31), and back. Days are counted from 0000-03-01, so that the leap day
  is the last day of a year; 146097 days are 400 years, 36524 a century, 1461 four years.
\<close>

definition civil_from_days :: "int \<Rightarrow> int \<times> int \<times> int" where
  "civil_from_days z =
    (let z0 = z + 719468;
         era = z0 div 146097;
         doe = z0 mod 146097;
         c = min 3 (doe div 36524);
         dc = doe - c * 36524;
         q = dc div 1461;
         dq = dc mod 1461;
         yq = min 3 (dq div 365);
         doy = dq - yq * 365;
         yoe = 100 * c + 4 * q + yq;
         mp = (5 * doy + 2) div 153;
         d = doy - (153 * mp + 2) div 5 + 1;
         m = (if mp < 10 then mp + 3 else mp - 9)
     in (yoe + era * 400 + (if m \<le> 2 then 1 else 0), m, d))"

definition days_from_civil :: "int \<Rightarrow> int \<Rightarrow> int \<Rightarrow> int" where
  "days_from_civil y m d =
    (let y' = (if m \<le> 2 then y - 1 else y);
         era = y' div 400;
         yoe = y' mod 400;
         mp = (if m > 2 then m - 3 else m + 9);
         doy = (153 * mp + 2) div 5 + d - 1;
         doe = yoe * 365 + yoe div 4 - yoe div 100 + doy
     in era * 146097 + doe - 719468)"

definition digit_char :: "nat \<Rightarrow> char" where
  "digit_char d = char_of (48 + d)"

definition digit_val :: "char \<Rightarrow> nat option" where
  "digit_val c =
    (let n = (of_char c :: nat) in if 48 \<le> n \<and> n \<le> 57 then Some (n - 48) else None)"

text \<open>\<open>pad w n\<close>: the last \<open>w\<close> decimal digits of \<open>n\<close>, most significant first.\<close>

fun pad :: "nat \<Rightarrow> nat \<Rightarrow> string" where
  "pad 0 n = []"
| "pad (Suc w) n = digit_char (n div 10 ^ w mod 10) # pad w n"

fun read_digits :: "nat \<Rightarrow> string \<Rightarrow> (nat \<times> string) option" where
  "read_digits 0 s = Some (0, s)"
| "read_digits (Suc w) [] = None"
| "read_digits (Suc w) (c # s) =
    (case digit_val c of
       None \<Rightarrow> None
     | Some d \<Rightarrow>
        (case read_digits w s of
           None \<Rightarrow> None
         | Some (n, r) \<Rightarrow> Some (d * 10 ^ w + n, r)))"

definition expect :: "char \<Rightarrow> string \<Rightarrow> string option" where
  "expect c s = (case s of [] \<Rightarrow> None | x # r \<Rightarrow> if x = c then Some r else None)"

definition toISOString :: "Date \<Rightarrow> string" where
  "toISOString t =
    (let (y, m, d) = civil_from_days (t div msPerDay);
         tod = t mod msPerDay;
         h = tod div 3600000;
         mi = tod div 60000 mod 60;
         s = tod div 1000 mod 60;
         ms = tod mod 1000;
         year = (if 0 \<le> y \<and> y \<le> 9999 then pad 4 (nat y)
                 else (if y < 0 then CHR ''-'' else CHR ''+'') # pad 6 (nat \<bar>y\<bar>))
     in year @ ''-'' @ pad 2 (nat m) @ ''-'' @ pad 2 (nat d) @ ''T'' @ pad 2 (nat h)
        @ '':'' @ pad 2 (nat mi) @ '':'' @ pad 2 (nat s) @ ''.'' @ pad 3 (nat ms) @ ''Z'')"

definition read_year :: "string \<Rightarrow> (int \<times> string) option" where
  "read_year s =
    (case s of
       [] \<Rightarrow> None
     | c # r \<Rightarrow>
        if c = CHR ''+'' then
          (case read_digits 6 r of None \<Rightarrow> None | Some (n, r') \<Rightarrow> Some (int n, r'))
        else if c = CHR ''-'' then
          (case read_digits 6 r of
             None \<Rightarrow> None
           | Some (n, r') \<Rightarrow> if n = 0 then None else Some (- int n, r'))
        else
          (case read_digits 4 s of None \<Rightarrow> None | Some (n, r') \<Rightarrow> Some (int n, r')))"

text \<open>
  \<^verbatim>\<open>new Date(string)\<close> on the full date-time form with the \<^verbatim>\<open>Z\<close> suffix, the form
  \<^verbatim>\<open>toISOString\<close> emits. \<open>None\<close> is an Invalid Date, or a text in another form,
  which this model does not read.
\<close>

definition parseISO :: "string \<Rightarrow> Date option" where
  "parseISO s0 = do {
     (y, s1) \<leftarrow> read_year s0;
     s2 \<leftarrow> expect CHR ''-'' s1;
     (mo, s3) \<leftarrow> read_digits 2 s2;
     s4 \<leftarrow> expect CHR ''-'' s3;
     (d, s5) \<leftarrow> read_digits 2 s4;
     s6 \<leftarrow> expect CHR ''T'' s5;
     (h, s7) \<leftarrow> read_digits 2 s6;
     s8 \<leftarrow> expect CHR '':'' s7;
     (mi, s9) \<leftarrow> read_digits 2 s8;
     s10 \<leftarrow> expect CHR '':'' s9;
     (sec, s11) \<leftarrow> read_digits 2 s10;
     s12 \<leftarrow> expect CHR ''.'' s11;
     (ms, s13) \<leftarrow> read_digits 3 s12;
     s14 \<leftarrow> expect CHR ''Z'' s13;
     if s14 \<noteq> [] then None
     else if \<not> (1 \<le> mo \<and> mo \<le> 12 \<and> 1 \<le> d \<and> d \<le> 31 \<and> mi \<le> 59 \<and> sec \<le> 59
                \<and> (h \<le> 23 \<or> (h = 24 \<and> mi = 0 \<and> sec = 0 \<and> ms = 0))) then None
     else
       (let t = days_from_civil y (int mo) (int d) * msPerDay
                + int h * 3600000 + int mi * 60000 + int sec * 1000 + int ms
        in if valid_time t then Some t else None)
   }"

section \<open>Data model\<close>

text \<open>
  Modelled from the spec: \<^verbatim>\<open>Session\<close>, \<^verbatim>\<open>Todo\<close> and \<^verbatim>\<open>TodoStatus\<close> are declared in
  storage/types.ts, which is not among the sources. Their fields are those of the spec's
  data model (section 3), the same that \<^verbatim>\<open>serializeSession\<close> copies one by one and that
  \<^verbatim>\<open>addTodo\<close> fills in; the status is one of \<^verbatim>\<open>pending\<close> and \<^verbatim>\<open>done\<close>.
  \<^verbatim>\<open>SerializedSession\<close> is declared in RedisSessionStore.ts: its dates are strings and
  its status is a plain string. An optional property is an \<open>option\<close>: \<open>None\<close> is
  \<^verbatim>\<open>undefined\<close>.
\<close>

datatype TodoStatus = Pending | Done

record Todo =
  t_id :: string
  t_title :: string
  t_description :: string
  t_tags :: "string list"
  t_status :: TodoStatus
  t_createdAt :: Date

record Session =
  s_id :: string
  s_userId :: "string option"
  s_scratchpad :: string
  s_todos :: "Todo list"
  s_createdAt :: Date
  s_lastModified :: Date

record SerializedTodo =
  st_id :: string
  st_title :: string
  st_description :: string
  st_tags :: "string list"
  st_status :: string
  st_createdAt :: string

record SerializedSession =
  ss_id :: string
  ss_userId :: "string option"
  ss_scratchpad :: string
  ss_todos :: "SerializedTodo list"
  ss_createdAt :: string
  ss_lastModified :: string

definition status_string :: "TodoStatus \<Rightarrow> string" where
  "status_string st = (case st of Pending \<Rightarrow> ''pending'' | Done \<Rightarrow> ''done'')"

text \<open>
  The cast \<^verbatim>\<open>todo.status as "pending" | "done"\<close> is unchecked; on any other string
  the result is no \<^verbatim>\<open>Todo\<close>, which is \<open>None\<close> here.
\<close>

definition as_status :: "string \<Rightarrow> TodoStatus option" where
  "as_status x =
    (if x = ''pending'' then Some Pending else if x = ''done'' then Some Done else None)"

section \<open>Serialization (RedisSessionStore.serializeSession, deserializeSession)\<close>

text \<open>
  The value kept under a key is the JSON text of a \<^verbatim>\<open>SerializedSession\<close>.
  \<^verbatim>\<open>JSON.stringify\<close> and \<^verbatim>\<open>JSON.parse\<close> are the runtime's; the model keeps the
  document they carry and not its text. A property whose value is \<^verbatim>\<open>undefined\<close>
  is left out of the text and reads back as \<^verbatim>\<open>undefined\<close>: that is
  \<open>ss_userId = None\<close>.
\<close>

definition serializeTodo :: "Todo \<Rightarrow> SerializedTodo" where
  "serializeTodo todo =
    \<lparr> st_id = t_id todo,
      st_title = t_title todo,
      st_description = t_description todo,
      st_tags = t_tags todo,
      st_status = status_string (t_status todo),
      st_createdAt = toISOString (t_createdAt todo) \<rparr>"

definition serializeSession :: "Session \<Rightarrow> SerializedSession" where
  "serializeSession session =
    \<lparr> ss_id = s_id session,
      ss_userId = s_userId session,
      ss_scratchpad = s_scratchpad session,
      ss_todos = map serializeTodo (s_todos session),
      ss_createdAt = toISOString (s_createdAt session),
      ss_lastModified = toISOString (s_lastModified session) \<rparr>"

definition deserializeTodo :: "SerializedTodo \<Rightarrow> Todo option" where
  "deserializeTodo todo = do {
     st \<leftarrow> as_status (st_status todo);
     c \<leftarrow> parseISO (st_createdAt todo);
     Some \<lparr> t_id = st_id todo,
            t_title = st_title todo,
            t_description = st_description todo,
            t_tags = st_tags todo,
            t_status = st,
            t_createdAt = c \<rparr>
   }"

definition deserializeSession :: "SerializedSession \<Rightarrow> Session option" where
  "deserializeSession serialized = do {
     todos \<leftarrow> those (map deserializeTodo (ss_todos serialized));
     c \<leftarrow> parseISO (ss_createdAt serialized);
     l \<leftarrow> parseISO (ss_lastModified serialized);
     Some \<lparr> s_id = ss_id serialized,
            s_userId = ss_userId serialized,
            s_scratchpad = ss_scratchpad serialized,
            s_todos = todos,
            s_createdAt = c,
            s_lastModified = l \<rparr>
   }"

text \<open>A session of the data model: every timestamp in it is a time value in range.\<close>

definition valid_todo :: "Todo \<Rightarrow> bool" where
  "valid_todo todo = valid_time (t_createdAt todo)"

definition valid_session :: "Session \<Rightarrow> bool" where
  "valid_session s =
    (valid_time (s_createdAt s) \<and> valid_time (s_lastModified s) \<and> list_all valid_todo (s_todos s))"

section \<open>Errors and asynchronous operations\<close>

text \<open>
  Modelled from the spec: the error classes \<^verbatim>\<open>SessionNotFoundError\<close> and
  \<^verbatim>\<open>UserIdMismatchError\<close> are declared in storage/types.ts, which is not among the
  sources; they are the spec's SessionNotFound and OwnerMismatch, and each is constructed
  with a session id. The other values a method of the store can throw are the plain
  \<^verbatim>\<open>Error\<close> of the id generator (the spec's GenerationExhausted) and the rejection of a
  call to the Redis client, which no method catches (the spec's BackendUnavailable).
  \<open>MalformedData\<close> stands for a stored document that \<open>deserializeSession\<close> above does
  not read.
\<close>

datatype error =
    SessionNotFoundError string
  | UserIdMismatchError string
  | Error string
  | ClientError string
  | MalformedData

text \<open>
  An \<^verbatim>\<open>async\<close> function runs in a world \<open>'w\<close> (the Redis server, the random source,
  the clock) and either resolves with a value or rejects with an error; \<open>await\<close> passes
  a rejection on, as an uncaught exception does.
\<close>

type_synonym ('w, 'a) async = "'w \<Rightarrow> (error + 'a) \<times> 'w"

definition resolve :: "'a \<Rightarrow> ('w, 'a) async" where
  "resolve x w = (Inr x, w)"

definition reject :: "error \<Rightarrow> ('w, 'a) async" where
  "reject e w = (Inl e, w)"

definition await :: "('w, 'a) async \<Rightarrow> ('a \<Rightarrow> ('w, 'b) async) \<Rightarrow> ('w, 'b) async" where
  "await m f w = (case m w of (Inl e, w') \<Rightarrow> (Inl e, w') | (Inr x, w') \<Rightarrow> f x w')"

definition catch :: "('w, 'a) async \<Rightarrow> (error \<Rightarrow> ('w, 'a) async) \<Rightarrow> ('w, 'a) async" where
  "catch m handler w = (case m w of (Inl e, w') \<Rightarrow> handler e w' | (Inr x, w') \<Rightarrow> (Inr x, w'))"

text \<open>A synchronous call that reads or changes the world and cannot fail.\<close>

definition sync :: "('w \<Rightarrow> 'a \<times> 'w) \<Rightarrow> ('w, 'a) async" where
  "sync f w = (case f w of (x, w') \<Rightarrow> (Inr x, w'))"

text \<open>
  The runtime a store runs against: the commands of the ioredis client it uses, each
  replying or failing with the message of a transport or server fault, the id generator
  \<^verbatim>\<open>nanoid(size)\<close> and the clock \<^verbatim>\<open>new Date()\<close>.
\<close>

type_synonym ('w, 'a) command = "'w \<Rightarrow> (string + 'a) \<times> 'w"

record 'w Runtime =
  redis_get :: "string \<Rightarrow> ('w, SerializedSession option) command"
  redis_setex :: "string \<Rightarrow> int \<Rightarrow> SerializedSession \<Rightarrow> ('w, unit) command"
  redis_ttl :: "string \<Rightarrow> ('w, int) command"
  redis_del :: "string \<Rightarrow> ('w, int) command"
  redis_exists :: "string \<Rightarrow> ('w, int) command"
  nanoid :: "nat \<Rightarrow> 'w \<Rightarrow> string \<times> 'w"
  new_Date :: "'w \<Rightarrow> Date \<times> 'w"

definition call :: "('w, 'a) command \<Rightarrow> ('w, 'a) async" where
  "call c w = (case c w of (Inl msg, w') \<Rightarrow> (Inl (ClientError msg), w') | (Inr x, w') \<Rightarrow> (Inr x, w'))"

section \<open>The Redis session store (RedisSessionStore.ts)\<close>

record RedisSessionStoreConfig =
  cfg_host :: "string option"
  cfg_port :: "int option"
  cfg_password :: "string option"
  cfg_ttlHours :: "int option"
  cfg_keyPrefix :: "string option"
  cfg_nanoidLength :: "nat option"

record RedisSessionStore =
  ttlSeconds :: int
  keyPrefix :: string
  nanoidLength :: nat

definition new_RedisSessionStore :: "RedisSessionStoreConfig \<Rightarrow> RedisSessionStore" where
  "new_RedisSessionStore config =
    (let ttlHours = (case cfg_ttlHours config of None \<Rightarrow> 24 | Some h \<Rightarrow> h)
     in \<lparr> ttlSeconds = ttlHours * 60 * 60,
          keyPrefix = (case cfg_keyPrefix config of None \<Rightarrow> ''mcp:session:'' | Some p \<Rightarrow> p),
          nanoidLength = (case cfg_nanoidLength config of None \<Rightarrow> 21 | Some n \<Rightarrow> n) \<rparr>)"

definition getKey :: "RedisSessionStore \<Rightarrow> string \<Rightarrow> string" where
  "getKey this sessionId = keyPrefix this @ sessionId"

definition exists :: "'w Runtime \<Rightarrow> RedisSessionStore \<Rightarrow> string \<Rightarrow> ('w, bool) async" where
  "exists rt this sessionId =
    (let key = getKey this sessionId
     in await (call (redis_exists rt key)) (\<lambda>result. resolve (result = 1)))"

definition maxAttempts :: nat where
  "maxAttempts = 10"

text \<open>
  The \<^verbatim>\<open>do ... while (await this.exists(id))\<close> loop of \<^verbatim>\<open>generateUniqueId\<close>;
  \<open>attempts\<close> is the counter on entry to the loop body.
\<close>

function generateUniqueId_loop ::
  "'w Runtime \<Rightarrow> RedisSessionStore \<Rightarrow> nat \<Rightarrow> ('w, string) async" where
  "generateUniqueId_loop rt this attempts w =
    (case nanoid rt (nanoidLength this) w of
       (id', w1) \<Rightarrow>
         if attempts + 1 > maxAttempts then
           (Inl (Error ''Failed to generate unique session ID after maximum attempts''), w1)
         else
           (case exists rt this id' w1 of
              (Inl e, w2) \<Rightarrow> (Inl e, w2)
            | (Inr collides, w2) \<Rightarrow>
                if collides then generateUniqueId_loop rt this (attempts + 1) w2
                else (Inr id', w2)))"
  by pat_completeness auto
termination
  by (relation "measure (\<lambda>(rt, this, attempts, w). maxAttempts + 1 - attempts)") auto

definition generateUniqueId :: "'w Runtime \<Rightarrow> RedisSessionStore \<Rightarrow> ('w, string) async" where
  "generateUniqueId rt this = generateUniqueId_loop rt this 0"

definition validateUserId :: "Session \<Rightarrow> string option \<Rightarrow> error + unit" where
  "validateUserId session userId =
    (if s_userId session \<noteq> None then
       (if userId = None \<or> s_userId session \<noteq> userId then Inl (UserIdMismatchError (s_id session))
        else Inr ())
     else Inr ())"


definition get ::
  "'w Runtime \<Rightarrow> RedisSessionStore \<Rightarrow> string \<Rightarrow> string option \<Rightarrow> ('w, Session option) async" where
  "get rt this sessionId userId =
    (let key = getKey this sessionId
     in await (call (redis_get rt key)) (\<lambda>data.
          case data of
            None \<Rightarrow> resolve None
          | Some d \<Rightarrow>
             (case deserializeSession d of
                None \<Rightarrow> reject MalformedData
              | Some session \<Rightarrow>
                 (case validateUserId session userId of
                    Inl e \<Rightarrow> reject e
                  | Inr _ \<Rightarrow> resolve (Some session)))))"

text \<open>
  The \<^verbatim>\<open>updates\<close> argument, of type \<^verbatim>\<open>Partial<Omit<Session, "id" | "createdAt">>\<close>.
  \<open>None\<close> is a property that the object does not have. \<^verbatim>\<open>userId\<close> is optional in
  \<^verbatim>\<open>Session\<close> too, so a present property may hold \<^verbatim>\<open>undefined\<close>: \<open>Some None\<close>. The
  other properties, when present, hold a value of their type.
\<close>

record SessionUpdates =
  u_userId :: "string option option"
  u_scratchpad :: "string option"
  u_todos :: "Todo list option"
  u_lastModified :: "Date option"

text \<open>The object spread \<^verbatim>\<open>{ ...session, ...updates }\<close>.\<close>

definition spread :: "Session \<Rightarrow> SessionUpdates \<Rightarrow> Session" where
  "spread session updates =
    \<lparr> s_id = s_id session,
      s_userId = (case u_userId updates of None \<Rightarrow> s_userId session | Some v \<Rightarrow> v),
      s_scratchpad = (case u_scratchpad updates of None \<Rightarrow> s_scratchpad session | Some v \<Rightarrow> v),
      s_todos = (case u_todos updates of None \<Rightarrow> s_todos session | Some v \<Rightarrow> v),
      s_createdAt = s_createdAt session,
      s_lastModified = (case u_lastModified updates of None \<Rightarrow> s_lastModified session | Some v \<Rightarrow> v) \<rparr>"

definition update ::
  "'w Runtime \<Rightarrow> RedisSessionStore \<Rightarrow> string \<Rightarrow> SessionUpdates \<Rightarrow> string option
    \<Rightarrow> ('w, unit) async" where
  "update rt this sessionId updates userId =
    await (get rt this sessionId userId) (\<lambda>found.
      case found of
        None \<Rightarrow> reject (SessionNotFoundError sessionId)
      | Some session \<Rightarrow>
          await (sync (new_Date rt)) (\<lambda>now.
            let updatedSession = (spread session updates) \<lparr> s_lastModified := now \<rparr>;
                key = getKey this sessionId;
                data = serializeSession updatedSession
            in await (call (redis_ttl rt key)) (\<lambda>ttl.
                 let newTtl = (if ttl > 0 then ttl else ttlSeconds this)
                 in await (call (redis_setex rt key newTtl data)) (\<lambda>_. resolve ()))))"

definition delete ::
  "'w Runtime \<Rightarrow> RedisSessionStore \<Rightarrow> string \<Rightarrow> string option \<Rightarrow> ('w, unit) async" where
  "delete rt this sessionId userId =
    await (get rt this sessionId userId) (\<lambda>found.
      case found of
        None \<Rightarrow> reject (SessionNotFoundError sessionId)
      | Some session \<Rightarrow>
          (let key = getKey this sessionId
           in await (call (redis_del rt key)) (\<lambda>_. resolve ())))"

declare generateUniqueId_loop.simps [simp del]

section \<open>Per-session locks (utils/locks.ts)\<close>

text \<open>
  \<^verbatim>\<open>sessionLocks\<close> is a table of the process, from session id to Mutex. A process is
  that table and the world its store runs in. In a run that is not interleaved with
  another, every Mutex is free when it is asked for, so the table is modelled by the set
  of ids that have an entry, and \<^verbatim>\<open>lock.runExclusive(f)\<close> runs \<open>f\<close>.
\<close>

record 'w Process =
  sessionLocks :: "string set"
  world :: 'w

definition getSessionLock :: "string \<Rightarrow> 'w Process \<Rightarrow> 'w Process" where
  "getSessionLock sessionId p =
    (if sessionId \<notin> sessionLocks p then p \<lparr> sessionLocks := insert sessionId (sessionLocks p) \<rparr>
     else p)"

definition removeSessionLock :: "string \<Rightarrow> 'w Process \<Rightarrow> 'w Process" where
  "removeSessionLock sessionId p = p \<lparr> sessionLocks := sessionLocks p - {sessionId} \<rparr>"

definition runExclusive :: "('w, 'a) async \<Rightarrow> 'w Process \<Rightarrow> (error + 'a) \<times> 'w Process" where
  "runExclusive f p = (case f (world p) of (r, w') \<Rightarrow> (r, p \<lparr> world := w' \<rparr>))"

text \<open>A method of the store called by the process: it runs in the world of the process.\<close>

definition in_process :: "('w, 'a) async \<Rightarrow> 'w Process \<Rightarrow> (error + 'a) \<times> 'w Process" where
  "in_process f p = (case f (world p) of (r, w') \<Rightarrow> (r, p \<lparr> world := w' \<rparr>))"

section \<open>The todo tools (tools/todo.ts)\<close>

text \<open>
  The response encoder (utils/encoder.ts) renders a result as text; the tools only pass
  values to it, so it is a parameter.
\<close>

record Encoder =
  encodeError :: "string \<Rightarrow> string \<Rightarrow> string"
  encodeTodo :: "Todo \<Rightarrow> string"
  encodeSuccess :: "string \<Rightarrow> (string \<times> string) list \<Rightarrow> string"

text \<open>
  Modelled from the spec: \<^verbatim>\<open>ToolContext\<close> is declared in tools/session.ts, which is not
  among the sources; it carries the store (here with the runtime it runs against), the
  encoder and the caller's identity, as the tools use it.
\<close>

record 'w ToolContext =
  ctx_runtime :: "'w Runtime"
  ctx_store :: RedisSessionStore
  ctx_encoder :: Encoder
  ctx_userId :: "string option"

record AddTodoInput =
  a_session_id :: string
  a_title :: string
  a_description :: string
  a_tags :: "string list"

record UpdateTodoInput =
  u_session_id :: string
  u_todo_id :: string
  u_status :: TodoStatus

record DeleteTodoInput =
  d_session_id :: string
  d_todo_id :: string

definition todos_update :: "Todo list \<Rightarrow> SessionUpdates" where
  "todos_update updatedTodos =
    \<lparr> u_userId = None, u_scratchpad = None, u_todos = Some updatedTodos, u_lastModified = None \<rparr>"

text \<open>\<^verbatim>\<open>Array.prototype.findIndex\<close>; \<open>None\<close> is \<^verbatim>\<open>-1\<close>.\<close>

fun findIndex :: "('a \<Rightarrow> bool) \<Rightarrow> 'a list \<Rightarrow> nat option" where
  "findIndex P [] = None"
| "findIndex P (x # xs) = (if P x then Some 0 else map_option Suc (findIndex P xs))"

definition session_not_found :: "Encoder \<Rightarrow> string \<Rightarrow> string" where
  "session_not_found enc session_id =
    encodeError enc (''Session not found: '' @ session_id) ''SESSION_NOT_FOUND''"

definition user_id_mismatch :: "Encoder \<Rightarrow> string" where
  "user_id_mismatch enc = encodeError enc ''User ID mismatch - access denied'' ''USER_ID_MISMATCH''"

definition addTodo ::
  "AddTodoInput \<Rightarrow> 'w ToolContext \<Rightarrow> 'w Process \<Rightarrow> (error + string) \<times> 'w Process" where
  "addTodo input context p =
    (let rt = ctx_runtime context; store = ctx_store context; enc = ctx_encoder context
     in runExclusive
          (catch
            (await (get rt store (a_session_id input) (ctx_userId context)) (\<lambda>found.
               case found of
                 None \<Rightarrow> resolve (session_not_found enc (a_session_id input))
               | Some session \<Rightarrow>
                   await (sync (nanoid rt 12)) (\<lambda>id'.
                   await (sync (new_Date rt)) (\<lambda>now.
                     let todo = \<lparr> t_id = id', t_title = a_title input,
                                    t_description = a_description input, t_tags = a_tags input,
                                    t_status = Pending, t_createdAt = now \<rparr>;
                         updatedTodos = s_todos session @ [todo]
                     in await (update rt store (a_session_id input) (todos_update updatedTodos)
                                 (ctx_userId context))
                          (\<lambda>_. resolve (encodeTodo enc todo))))))
            (\<lambda>error.
               case error of
                 UserIdMismatchError _ \<Rightarrow> resolve (user_id_mismatch enc)
               | _ \<Rightarrow> reject error))
          (getSessionLock (a_session_id input) p))"

definition updateTodo ::
  "UpdateTodoInput \<Rightarrow> 'w ToolContext \<Rightarrow> 'w Process \<Rightarrow> (error + string) \<times> 'w Process" where
  "updateTodo input context p =
    (let rt = ctx_runtime context; store = ctx_store context; enc = ctx_encoder context
     in runExclusive
          (catch
            (await (get rt store (u_session_id input) (ctx_userId context)) (\<lambda>found.
               case found of
                 None \<Rightarrow> resolve (session_not_found enc (u_session_id input))
               | Some session \<Rightarrow>
                  (case findIndex (\<lambda>t. t_id t = u_todo_id input) (s_todos session) of
                     None \<Rightarrow>
                       resolve (encodeError enc (''Todo not found: '' @ u_todo_id input)
                                  ''TODO_NOT_FOUND'')
                   | Some todoIndex \<Rightarrow>
                      (let updatedTodo = (s_todos session ! todoIndex) \<lparr> t_status := u_status input \<rparr>;
                           updatedTodos = (s_todos session) [todoIndex := updatedTodo]
                       in await (update rt store (u_session_id input) (todos_update updatedTodos)
                                   (ctx_userId context))
                            (\<lambda>_. resolve (encodeTodo enc updatedTodo))))))
            (\<lambda>error.
               case error of
                 SessionNotFoundError _ \<Rightarrow> resolve (session_not_found enc (u_session_id input))
               | UserIdMismatchError _ \<Rightarrow> resolve (user_id_mismatch enc)
               | _ \<Rightarrow> reject error))
          (getSessionLock (u_session_id input) p))"

definition deleteTodo ::
  "DeleteTodoInput \<Rightarrow> 'w ToolContext \<Rightarrow> 'w Process \<Rightarrow> (error + string) \<times> 'w Process" where
  "deleteTodo input context p =
    (let rt = ctx_runtime context; store = ctx_store context; enc = ctx_encoder context
     in runExclusive
          (catch
            (await (get rt store (d_session_id input) (ctx_userId context)) (\<lambda>found.
               case found of
                 None \<Rightarrow> resolve (session_not_found enc (d_session_id input))
               | Some session \<Rightarrow>
                  (case findIndex (\<lambda>t. t_id t = d_todo_id input) (s_todos session) of
                     None \<Rightarrow>
                       resolve (encodeError enc (''Todo not found: '' @ d_todo_id input)
                                  ''TODO_NOT_FOUND'')
                   | Some todoIndex \<Rightarrow>
                      (let deletedTodo = s_todos session ! todoIndex;
                           updatedTodos = filter (\<lambda>t. t_id t \<noteq> d_todo_id input) (s_todos session)
                       in await (update rt store (d_session_id input) (todos_update updatedTodos)
                                   (ctx_userId context))
                            (\<lambda>_. resolve (encodeSuccess enc ''Todo deleted successfully''
                                    [(''deleted_id'', t_id deletedTodo),
                                     (''deleted_title'', t_title deletedTodo)]))))))
            (\<lambda>error.
               case error of
                 SessionNotFoundError _ \<Rightarrow> resolve (session_not_found enc (d_session_id input))
               | UserIdMismatchError _ \<Rightarrow> resolve (user_id_mismatch enc)
               | _ \<Rightarrow> reject error))
          (getSessionLock (d_session_id input) p))"

section \<open>A Redis server and a runtime to run the store in\<close>

text \<open>
  The server is the one the repository's own tests run the store against (the ioredis mock
  of the store's test file): a table from key to value and TTL, where \<^verbatim>\<open>ttl\<close> of a
  missing key is \<open>-2\<close>. No command of it fails. The random source is the sequence
  \<open>ids\<close> of the strings \<^verbatim>\<open>nanoid\<close> will return, the clock the sequence \<open>clock\<close> of the
  times \<^verbatim>\<open>new Date()\<close> will show; \<open>drawn\<close> and \<open>reads\<close> count the calls made.
\<close>

record World =
  mockData :: "string \<rightharpoonup> SerializedSession \<times> int"
  ids :: "nat \<Rightarrow> string"
  drawn :: nat
  clock :: "nat \<Rightarrow> Date"
  reads :: nat

definition mock :: "World Runtime" where
  "mock =
    \<lparr> redis_get = (\<lambda>key w. (Inr (map_option fst (mockData w key)), w)),
      redis_setex = (\<lambda>key ttl val w. (Inr (), w \<lparr> mockData := (mockData w)(key \<mapsto> (val, ttl)) \<rparr>)),
      redis_ttl = (\<lambda>key w. (Inr (case mockData w key of None \<Rightarrow> - 2 | Some (val, ttl) \<Rightarrow> ttl), w)),
      redis_del = (\<lambda>key w. (Inr (if mockData w key = None then 0 else 1),
                              w \<lparr> mockData := (mockData w)(key := None) \<rparr>)),
      redis_exists = (\<lambda>key w. (Inr (if mockData w key = None then 0 else 1), w)),
      nanoid = (\<lambda>size w. (ids w (drawn w), w \<lparr> drawn := drawn w + 1 \<rparr>)),
      new_Date = (\<lambda>w. (clock w (reads w), w \<lparr> reads := reads w + 1 \<rparr>)) \<rparr>"


section \<open>A store, a world and an encoder to evaluate on\<close>

text \<open>
  The store of the repository's tests (one hour, prefix \<^verbatim>\<open>test:session:\<close>, ids of 21
  characters), an empty server with a supply of ids and a clock that starts at
  2025-01-18T10:00:00Z and has advanced 10 ms at each reading, and runtimes whose
  connection is lost: at every command, at the TTL query, at the write.
\<close>

definition test_store :: RedisSessionStore where
  "test_store =
    new_RedisSessionStore
      \<lparr> cfg_host = Some ''localhost'', cfg_port = Some 6379, cfg_password = None,
        cfg_ttlHours = Some 1, cfg_keyPrefix = Some ''test:session:'',
        cfg_nanoidLength = Some 21 \<rparr>"

definition world0 :: World where
  "world0 =
    \<lparr> mockData = Map.empty,
      ids = (\<lambda>k. ''V1StGXR8_Z5jdHi6B-'' @ pad 3 k),
      drawn = 0,
      clock = (\<lambda>k. 1737194400000 + 10 * int k),
      reads = 0 \<rparr>"

definition connection_closed :: "('w, 'a) command" where
  "connection_closed w = (Inl ''Connection is closed.'', w)"

definition unreachable :: "World Runtime" where
  "unreachable =
    mock \<lparr> redis_get := (\<lambda>key. connection_closed),
           redis_setex := (\<lambda>key ttl val. connection_closed),
           redis_ttl := (\<lambda>key. connection_closed),
           redis_del := (\<lambda>key. connection_closed),
           redis_exists := (\<lambda>key. connection_closed) \<rparr>"

definition lost_at_ttl :: "World Runtime" where
  "lost_at_ttl = mock \<lparr> redis_ttl := (\<lambda>key. connection_closed) \<rparr>"

text \<open>A server on which the key expires between the GET and the TTL query of an update.\<close>

definition expires_before_ttl :: "World Runtime" where
  "expires_before_ttl =
    mock \<lparr> redis_ttl := (\<lambda>key w. (Inr (- 2), w \<lparr> mockData := (mockData w)(key := None) \<rparr>)) \<rparr>"

definition lost_at_setex :: "World Runtime" where
  "lost_at_setex = mock \<lparr> redis_setex := (\<lambda>key ttl val. connection_closed) \<rparr>"

definition json_like :: Encoder where
  "json_like =
    \<lparr> encodeError = (\<lambda>message code. ''error '' @ code @ '': '' @ message),
      encodeTodo = (\<lambda>todo. ''todo '' @ t_id todo @ '' '' @ status_string (t_status todo)),
      encodeSuccess = (\<lambda>message data. ''success: '' @ message) \<rparr>"


text \<open>
  A server that holds two sessions: one bound to the user \<^verbatim>\<open>alice\<close>, in which two todos
  share an id, and one bound to nobody.
\<close>

definition alice_session :: Session where
  "alice_session =
    \<lparr> s_id = ''V1StGXR8_Z5jdHi6B-000'', s_userId = Some ''alice'', s_scratchpad = ''note A'',
      s_todos = [\<lparr> t_id = ''abc123def456'', t_title = ''task 1'', t_description = [],
                    t_tags = [''backend'', ''priority''], t_status = Pending,
                    t_createdAt = 1737194400010 \<rparr>,
                 \<lparr> t_id = ''xyz789ghi012'', t_title = ''task 2'', t_description = [],
                    t_tags = [], t_status = Pending, t_createdAt = 1737194400020 \<rparr>,
                 \<lparr> t_id = ''abc123def456'', t_title = ''task 3'', t_description = [],
                    t_tags = [], t_status = Pending, t_createdAt = 1737194400030 \<rparr>],
      s_createdAt = 1737194400000, s_lastModified = 1737194400030 \<rparr>"

definition open_session :: Session where
  "open_session =
    \<lparr> s_id = ''V1StGXR8_Z5jdHi6B-001'', s_userId = None, s_scratchpad = [], s_todos = [],
      s_createdAt = 1737194400040, s_lastModified = 1737194400040 \<rparr>"

definition world1 :: World where
  "world1 =
    world0 \<lparr> mockData :=
               [getKey test_store (s_id alice_session) \<mapsto> (serializeSession alice_session, 1200),
                getKey test_store (s_id open_session) \<mapsto> (serializeSession open_session, 1800)],
             drawn := 2,
             reads := 5 \<rparr>"




text \<open>The tools called by \<^verbatim>\<open>alice\<close>, in a process whose lock table is empty.\<close>

definition alice_context :: "World ToolContext" where
  "alice_context =
    \<lparr> ctx_runtime = mock, ctx_store = test_store, ctx_encoder = json_like,
      ctx_userId = Some ''alice'' \<rparr>"

definition process1 :: "World Process" where
  "process1 = \<lparr> sessionLocks = {}, world = world1 \<rparr>"

section \<open>Timestamps: reading back what was written\<close>

lemma div_bounds:
  fixes a b k :: int
  assumes "0 < b" "0 \<le> a" "a \<le> k * b + (b - 1)"
  shows "0 \<le> a div b" "a div b \<le> k"
proof -
  show "0 \<le> a div b" using assms by (simp add: pos_imp_zdiv_nonneg_iff)
  have "a div b \<le> (k * b + (b - 1)) div b"
    using assms by (intro zdiv_mono1) simp_all
  also have "(k * b + (b - 1)) div b = k"
    using assms by simp
  finally show "a div b \<le> k" .
qed

lemma digit_val_digit_char: "d < 10 \<Longrightarrow> digit_val (digit_char d) = Some d"
  by (simp add: digit_val_def digit_char_def Let_def)

lemma digit_char_not_sign:
  "d < 10 \<Longrightarrow> digit_char d \<noteq> CHR ''+''" "d < 10 \<Longrightarrow> digit_char d \<noteq> CHR ''-''"
proof -
  assume d: "d < 10"
  have "of_char (digit_char d) = 48 + d" using d by (simp add: digit_char_def)
  moreover have "of_char CHR ''+'' = (43::nat)" "of_char CHR ''-'' = (45::nat)" by simp_all
  ultimately show "digit_char d \<noteq> CHR ''+''" "digit_char d \<noteq> CHR ''-''" by fastforce+
qed

lemma length_pad: "length (pad w n) = w"
  by (induction w) simp_all

lemma read_digits_pad: "read_digits w (pad w n @ r) = Some (n mod 10 ^ w, r)"
proof (induction w)
  case 0
  show ?case by simp
next
  case (Suc w)
  have "n mod (10 ^ w * 10) = 10 ^ w * (n div 10 ^ w mod 10) + n mod 10 ^ w"
    by (rule mod_mult2_eq)
  then show ?case
    using Suc by (simp add: digit_val_digit_char mult.commute)
qed

lemma read_digits_pad_small:
  "n < 10 ^ w \<Longrightarrow> read_digits w (pad w n @ r) = Some (n, r)"
  by (simp add: read_digits_pad)

lemma expect_Cons: "expect c (c # r) = Some r"
  by (simp add: expect_def)


lemma capped_split:
  fixes a b k :: int
  assumes "0 < b" "0 \<le> a" "a \<le> (k + 1) * b" "0 \<le> k"
  shows "0 \<le> min k (a div b)" "min k (a div b) \<le> k"
    "0 \<le> a - min k (a div b) * b" "a - min k (a div b) * b \<le> b"
proof -
  have nn: "0 \<le> a div b" using assms by (simp add: pos_imp_zdiv_nonneg_iff)
  show "0 \<le> min k (a div b)" using nn assms by simp
  show "min k (a div b) \<le> k" by simp
  have dm: "a = (a div b) * b + a mod b" by simp
  have m: "0 \<le> a mod b" "a mod b < b" using assms by simp_all
  show "0 \<le> a - min k (a div b) * b"
  proof (cases "a div b \<le> k")
    case True
    then have "min k (a div b) = a div b" by simp
    then show ?thesis using m by (simp add: minus_div_mult_eq_mod)
  next
    case False
    then have "min k (a div b) = k" by simp
    moreover have "k * b \<le> (a div b) * b" using False assms by (intro mult_right_mono) simp_all
    ultimately show ?thesis using dm m by linarith
  qed
  show "a - min k (a div b) * b \<le> b"
  proof (cases "a div b \<le> k")
    case True
    then have "min k (a div b) = a div b" by simp
    then show ?thesis using m by (simp add: minus_div_mult_eq_mod)
  next
    case False
    then have "min k (a div b) = k" by simp
    then show ?thesis using assms by (simp add: algebra_simps)
  qed
qed

lemma div_mod_shift:
  fixes r n b :: int
  assumes "0 \<le> r" "r < b"
  shows "(r + n * b) div b = n" "(r + n * b) mod b = r"
  using assms by simp_all

lemma civil_from_days_props:
  assumes "civil_from_days z = (y, m, d)"
  shows "days_from_civil y m d = z"
    and "1 \<le> m" "m \<le> 12" "1 \<le> d" "d \<le> 31"
    and "(z + 719468) div 146097 * 400 \<le> y" "y \<le> (z + 719468) div 146097 * 400 + 400"
proof -
  define z0 where "z0 = z + 719468"
  define era where "era = z0 div 146097"
  define doe where "doe = z0 mod 146097"
  define c where "c = min 3 (doe div 36524)"
  define dc where "dc = doe - c * 36524"
  define q where "q = dc div 1461"
  define dq where "dq = dc mod 1461"
  define yq where "yq = min 3 (dq div 365)"
  define doy where "doy = dq - yq * 365"
  define yoe where "yoe = 100 * c + 4 * q + yq"
  define mp where "mp = (5 * doy + 2) div 153"
  define k where "k = (153 * mp + 2) div 5"
  define d0 where "d0 = doy - k + 1"
  define m0 where "m0 = (if mp < 10 then mp + 3 else mp - 9)"
  have cfd: "civil_from_days z = (yoe + era * 400 + (if m0 \<le> 2 then 1 else 0), m0, d0)"
    unfolding civil_from_days_def Let_def z0_def era_def doe_def c_def dc_def q_def dq_def
      yq_def doy_def yoe_def mp_def d0_def k_def m0_def by (rule refl)
  have m: "m = m0" and d: "d = d0"
    using assms unfolding cfd by simp_all
  have y: "y = yoe + era * 400 + (if m \<le> 2 then 1 else 0)"
    using assms unfolding cfd m by simp
  have z0: "z0 = era * 146097 + doe"
    unfolding era_def doe_def by simp
  have doe: "0 \<le> doe" "doe \<le> 146096"
    unfolding doe_def by simp_all
  have c: "0 \<le> c" "c \<le> 3" and dc: "0 \<le> dc" "dc \<le> 36524"
    unfolding c_def dc_def using capped_split [of 36524 doe 3] doe by simp_all
  have q: "0 \<le> q" "q \<le> 24"
    unfolding q_def using div_bounds [of 1461 dc 24] dc by simp_all
  have dq: "0 \<le> dq" "dq \<le> 1460"
    unfolding dq_def by simp_all
  have dcq: "dc = 1461 * q + dq"
    unfolding dq_def q_def by simp
  have yq: "0 \<le> yq" "yq \<le> 3" and doy: "0 \<le> doy" "doy \<le> 365"
    unfolding yq_def doy_def using capped_split [of 365 dq 3] dq by simp_all
  have yoe: "0 \<le> yoe" "yoe \<le> 399"
    using c q yq unfolding yoe_def by simp_all
  have mp: "0 \<le> mp" "mp \<le> 11"
    unfolding mp_def using div_bounds [of 153 "5 * doy + 2" 11] doy by simp_all
  have "yoe = yq + (25 * c + q) * 4"
    unfolding yoe_def by simp
  then have y4: "yoe div 4 = 25 * c + q"
    using div_mod_shift(1) [of yq 4 "25 * c + q"] yq by simp
  have "yoe = (4 * q + yq) + c * 100"
    unfolding yoe_def by simp
  then have y100: "yoe div 100 = c"
    using div_mod_shift(1) [of "4 * q + yq" 100 c] yq q by simp
  define y' where "y' = yoe + era * 400"
  have era': "y' div 400 = era" and yoe': "y' mod 400 = yoe"
    unfolding y'_def using div_mod_shift [of yoe 400 era] yoe by simp_all
  have mp': "(if m > 2 then m - 3 else m + 9) = mp"
    using mp unfolding m m0_def by simp
  have ysel: "(if m \<le> 2 then y - 1 else y) = y'"
    unfolding y'_def y by simp
  have "days_from_civil y m d
        = era * 146097 + (yoe * 365 + yoe div 4 - yoe div 100 + (k + d - 1)) - 719468"
    unfolding days_from_civil_def Let_def ysel mp' era' yoe' k_def by simp
  also have "\<dots> = era * 146097 + (365 * yoe + (25 * c + q) - c + doy) - 719468"
    by (simp add: y4 y100 d d0_def)
  also have "\<dots> = era * 146097 + doe - 719468"
    using dcq by (simp add: yoe_def doy_def dc_def)
  also have "\<dots> = z"
    using z0 unfolding z0_def by simp
  finally show "days_from_civil y m d = z" .
  show "1 \<le> m" "m \<le> 12"
    using mp unfolding m m0_def by simp_all
  have r: "5 * doy + 2 = 153 * mp + (5 * doy + 2) mod 153"
    unfolding mp_def by simp
  have r': "153 * mp + 2 = 5 * k + (153 * mp + 2) mod 5"
    unfolding k_def by simp
  have rb: "0 \<le> (5 * doy + 2) mod 153" "(5 * doy + 2) mod 153 \<le> 152"
    "0 \<le> (153 * mp + 2) mod 5" "(153 * mp + 2) mod 5 \<le> 4"
    by simp_all
  show "1 \<le> d" "d \<le> 31"
    unfolding d d0_def using r r' rb by linarith+
  show "(z + 719468) div 146097 * 400 \<le> y" "y \<le> (z + 719468) div 146097 * 400 + 400"
    unfolding y using yoe by (simp_all add: era_def z0_def)
qed


lemma pad_first: "pad (Suc w) n @ r = digit_char (n div 10 ^ w mod 10) # pad w n @ r"
  by simp

lemma read_year_format:
  assumes "\<bar>y\<bar> < 1000000"
  shows "read_year ((if 0 \<le> y \<and> y \<le> 9999 then pad 4 (nat y)
                     else (if y < 0 then CHR ''-'' else CHR ''+'') # pad 6 (nat \<bar>y\<bar>)) @ r)
         = Some (y, r)"
proof (cases "0 \<le> y \<and> y \<le> 9999")
  case True
  then have small: "nat y < 10 ^ 4" by (simp add: nat_less_iff)
  have "nat y div 1000 mod 10 < 10" by simp
  note ns = digit_char_not_sign [OF this]
  have first: "pad 4 (nat y) @ r = digit_char (nat y div 1000 mod 10) # pad 3 (nat y) @ r"
    using pad_first [of 3 "nat y" r] by (simp del: pad.simps)
  have "read_year (digit_char (nat y div 1000 mod 10) # pad 3 (nat y) @ r)
      = (case read_digits 4 (digit_char (nat y div 1000 mod 10) # pad 3 (nat y) @ r) of
           None \<Rightarrow> None | Some (n, r') \<Rightarrow> Some (int n, r'))"
    using ns by (simp add: read_year_def del: read_digits.simps pad.simps)
  then have "read_year (pad 4 (nat y) @ r)
      = (case read_digits 4 (pad 4 (nat y) @ r) of None \<Rightarrow> None
         | Some (n, r') \<Rightarrow> Some (int n, r'))"
    unfolding first .
  also have "\<dots> = Some (y, r)"
    unfolding read_digits_pad_small [OF small] using True by simp
  finally show ?thesis using True by (simp del: read_digits.simps pad.simps)
next
  case False
  have small: "nat \<bar>y\<bar> < 10 ^ 6" using assms by (simp add: nat_less_iff)
  have rd: "read_digits 6 (pad 6 (nat \<bar>y\<bar>) @ r) = Some (nat \<bar>y\<bar>, r)"
    by (rule read_digits_pad_small [OF small])
  show ?thesis
  proof (cases "y < 0")
    case True
    then have "\<bar>y\<bar> = - y" "nat (- y) \<noteq> 0" by simp_all
    then show ?thesis
      using False True rd by (simp add: read_year_def del: read_digits.simps pad.simps)
  next
    case neg: False
    then have "\<bar>y\<bar> = y" by simp
    then show ?thesis
      using False neg rd by (simp add: read_year_def del: read_digits.simps pad.simps)
  qed
qed

lemma time_of_day:
  fixes tod :: int
  assumes "0 \<le> tod" "tod < 86400000"
  shows "tod div 3600000 * 3600000 + tod div 60000 mod 60 * 60000
         + tod div 1000 mod 60 * 1000 + tod mod 1000 = tod"
    and "0 \<le> tod div 3600000" "tod div 3600000 \<le> 23"
proof -
  have a: "tod div 60000 div 60 = tod div 3600000"
    by (simp add: div_mult2_eq [symmetric])
  have b: "tod div 1000 div 60 = tod div 60000"
    by (simp add: div_mult2_eq [symmetric])
  have "tod = tod div 1000 * 1000 + tod mod 1000" by simp
  also have "tod div 1000 = tod div 1000 div 60 * 60 + tod div 1000 mod 60" by simp
  also have "tod div 1000 div 60 = tod div 60000 div 60 * 60 + tod div 60000 mod 60"
    unfolding b by simp
  finally show "tod div 3600000 * 3600000 + tod div 60000 mod 60 * 60000
         + tod div 1000 mod 60 * 1000 + tod mod 1000 = tod"
    unfolding a by (simp add: algebra_simps)
  show "0 \<le> tod div 3600000" "tod div 3600000 \<le> 23"
    using div_bounds [of 3600000 tod 23] assms by simp_all
qed

lemma parseISO_toISOString:
  assumes "valid_time t"
  shows "parseISO (toISOString t) = Some t"
proof -
  obtain y m d where cfd: "civil_from_days (t div msPerDay) = (y, m, d)"
    by (cases "civil_from_days (t div msPerDay)") auto
  note p = civil_from_days_props [OF cfd]
  define tod where "tod = t mod msPerDay"
  define h where "h = tod div 3600000"
  define mi where "mi = tod div 60000 mod 60"
  define sec where "sec = tod div 1000 mod 60"
  define ms where "ms = tod mod 1000"
  define year where "year = (if 0 \<le> y \<and> y \<le> 9999 then pad 4 (nat y)
                 else (if y < 0 then CHR ''-'' else CHR ''+'') # pad 6 (nat \<bar>y\<bar>))"
  have fmt: "toISOString t = year @ CHR ''-'' # pad 2 (nat m) @ CHR ''-'' # pad 2 (nat d)
      @ CHR ''T'' # pad 2 (nat h) @ CHR '':'' # pad 2 (nat mi) @ CHR '':'' # pad 2 (nat sec)
      @ CHR ''.'' # pad 3 (nat ms) @ [CHR ''Z'']"
    unfolding toISOString_def cfd Let_def tod_def h_def mi_def sec_def ms_def year_def
    by simp
  have tod: "0 \<le> tod" "tod < 86400000"
    unfolding tod_def msPerDay_def by simp_all
  note td = time_of_day [OF tod]
  have tb: "- 8640000000000000 \<le> t" "t \<le> 8640000000000000"
    using assms unfolding valid_time_def by simp_all
  define dn where "dn = t div 86400000"
  have day: "- 100000000 \<le> dn" "dn \<le> 100000000"
    unfolding dn_def
    using zdiv_mono1 [OF tb(1), of 86400000] zdiv_mono1 [OF tb(2), of 86400000]
    by simp_all
  define e where "e = (dn + 719468) div 146097"
  have lo: "- 99280532 \<le> dn + 719468" and hi: "dn + 719468 \<le> 100719468"
    using day by simp_all
  have era: "- 680 \<le> e" "e \<le> 689"
    unfolding e_def
    using zdiv_mono1 [OF lo, of 146097] zdiv_mono1 [OF hi, of 146097]
    by simp_all
  have yb: "e * 400 \<le> y" "y \<le> e * 400 + 400"
    using p(6,7) unfolding e_def dn_def msPerDay_def by simp_all
  have ybound: "\<bar>y\<bar> < 1000000"
    using yb era by linarith
  have ry: "\<And>r. read_year (year @ r) = Some (y, r)"
    unfolding year_def by (rule read_year_format [OF ybound])
  have rm: "\<And>r. read_digits 2 (pad 2 (nat m) @ r) = Some (nat m, r)"
    using p(2,3) by (intro read_digits_pad_small) simp
  have rd: "\<And>r. read_digits 2 (pad 2 (nat d) @ r) = Some (nat d, r)"
    using p(4,5) by (intro read_digits_pad_small) simp
  have hb: "0 \<le> h" "h \<le> 23"
    using td(2,3) unfolding h_def by simp_all
  have rh: "\<And>r. read_digits 2 (pad 2 (nat h) @ r) = Some (nat h, r)"
    using hb by (intro read_digits_pad_small) simp
  have mib: "0 \<le> mi" "mi < 60" and secb: "0 \<le> sec" "sec < 60" and msb: "0 \<le> ms" "ms < 1000"
    unfolding mi_def sec_def ms_def by simp_all
  have rmi: "\<And>r. read_digits 2 (pad 2 (nat mi) @ r) = Some (nat mi, r)"
    using mib by (intro read_digits_pad_small) simp
  have rsec: "\<And>r. read_digits 2 (pad 2 (nat sec) @ r) = Some (nat sec, r)"
    using secb by (intro read_digits_pad_small) simp
  have rms: "\<And>r. read_digits 3 (pad 3 (nat ms) @ r) = Some (nat ms, r)"
    using msb by (intro read_digits_pad_small) simp
  have valid: "1 \<le> nat m \<and> nat m \<le> 12 \<and> 1 \<le> nat d \<and> nat d \<le> 31 \<and> nat mi \<le> 59
      \<and> nat sec \<le> 59 \<and> nat h \<le> 23"
    using p(2-5) mib secb hb by linarith
  have unnat: "int (nat m) = m" "int (nat d) = d" "int (nat h) = h" "int (nat mi) = mi"
    "int (nat sec) = sec" "int (nat ms) = ms"
    using p(2,4) hb(1) mib(1) secb(1) msb(1) by simp_all
  have hms: "h * 3600000 + mi * 60000 + sec * 1000 + ms = tod"
    using td(1) unfolding h_def mi_def sec_def ms_def .
  have "days_from_civil y m d * msPerDay + tod = t"
    unfolding p(1) tod_def by simp
  then have recompose: "days_from_civil y m d * msPerDay
      + h * 3600000 + mi * 60000 + sec * 1000 + ms = t"
    using hms by linarith
  have nn: "0 \<le> m" "0 \<le> d"
    using p(2,4) by simp_all
  show ?thesis
    unfolding parseISO_def fmt
    using valid assms nn hb(1) mib(1) secb(1) msb(1)
    by (simp add: ry rm rd rh rmi rsec rms expect_Cons recompose
        del: read_digits.simps pad.simps)
qed


lemma parseISO_valid: "parseISO s = Some t \<Longrightarrow> valid_time t"
  unfolding parseISO_def
  by (auto simp: Let_def split: Option.bind_splits prod.splits if_splits)

section \<open>Serialization\<close>

lemma as_status_status_string: "as_status (status_string st) = Some st"
  by (cases st) (simp_all add: as_status_def status_string_def)

lemma deserializeTodo_serializeTodo:
  "valid_todo todo \<Longrightarrow> deserializeTodo (serializeTodo todo) = Some todo"
  by (simp add: deserializeTodo_def serializeTodo_def valid_todo_def
      as_status_status_string parseISO_toISOString)

lemma those_deserializeTodo:
  "list_all valid_todo ts \<Longrightarrow> those (map deserializeTodo (map serializeTodo ts)) = Some ts"
  by (induction ts) (simp_all add: deserializeTodo_serializeTodo)

lemma deserialize_serialize:
  "valid_session s \<Longrightarrow> deserializeSession (serializeSession s) = Some s"
  by (simp add: deserializeSession_def serializeSession_def valid_session_def
      those_deserializeTodo parseISO_toISOString del: map_map)

lemma deserializeTodo_valid: "deserializeTodo d = Some todo \<Longrightarrow> valid_todo todo"
  by (auto simp: deserializeTodo_def valid_todo_def parseISO_valid split: Option.bind_splits)

lemma those_valid:
  "those (map deserializeTodo ds) = Some ts \<Longrightarrow> list_all valid_todo ts"
  by (induction ds arbitrary: ts) (auto simp: deserializeTodo_valid split: option.splits)

lemma deserializeSession_valid: "deserializeSession d = Some s \<Longrightarrow> valid_session s"
  by (auto simp: deserializeSession_def valid_session_def parseISO_valid those_valid
      split: Option.bind_splits)

text \<open>
  C7. Deserializing the serialization of a session gives the session back: every field,
  both timestamps to the millisecond, the todos in their order and the tags of each todo
  in their order. The session is any session of the data model, that is, its timestamps
  are time values in the range of a Date.
\<close>

theorem serialize_round_trip:
  assumes "valid_session s"
  shows "deserializeSession (serializeSession s) = Some s"
proof -
  have todos: "those (map deserializeTodo (map serializeTodo (s_todos s))) = Some (s_todos s)"
    using assms by (intro those_deserializeTodo) (simp add: valid_session_def)
  have created: "parseISO (toISOString (s_createdAt s)) = Some (s_createdAt s)"
    using assms by (intro parseISO_toISOString) (simp add: valid_session_def)
  have modified: "parseISO (toISOString (s_lastModified s)) = Some (s_lastModified s)"
    using assms by (intro parseISO_toISOString) (simp add: valid_session_def)
  show ?thesis
    unfolding deserializeSession_def serializeSession_def
    by (simp add: todos created modified del: map_map)
qed

theorem serialize_round_trip_witness:
  "valid_session alice_session
   \<and> deserializeSession (serializeSession alice_session) = Some alice_session"
proof -
  have v: "valid_session alice_session"
    by (simp add: valid_session_def valid_todo_def valid_time_def alice_session_def)
  from v serialize_round_trip [OF v] show ?thesis by (rule conjI)
qed


section \<open>Running asynchronous operations\<close>

lemma await_resolve: "await (resolve x) f = f x"
  by (rule ext) (simp add: await_def resolve_def)

lemma await_reject: "await (reject e) f = reject e"
  by (rule ext) (simp add: await_def reject_def)

lemma await_Inr: "m w = (Inr x, w') \<Longrightarrow> await m f w = f x w'"
  by (simp add: await_def)

lemma await_Inl: "m w = (Inl e, w') \<Longrightarrow> await m f w = (Inl e, w')"
  by (simp add: await_def)

lemma call_Inr: "c w = (Inr x, w') \<Longrightarrow> call c w = (Inr x, w')"
  by (simp add: call_def)

lemma call_Inl: "c w = (Inl msg, w') \<Longrightarrow> call c w = (Inl (ClientError msg), w')"
  by (simp add: call_def)

lemma sync_eq: "f w = (x, w') \<Longrightarrow> sync f w = (Inr x, w')"
  by (simp add: sync_def)

lemma call_cases:
  obtains (fault) msg w' where "c w = (Inl msg, w')" "call c w = (Inl (ClientError msg), w')"
  | (reply) x w' where "c w = (Inr x, w')" "call c w = (Inr x, w')"
proof (cases "c w")
  case (Pair r w')
  then show ?thesis
    by (cases r) (auto simp: call_def intro: fault reply)
qed

section \<open>The store against any runtime\<close>

lemma get_fault:
  "redis_get rt (getKey this sid) w = (Inl msg, w') \<Longrightarrow>
   get rt this sid c w = (Inl (ClientError msg), w')"
  by (simp add: get_def Let_def await_Inl call_Inl)

lemma get_absent:
  "redis_get rt (getKey this sid) w = (Inr None, w') \<Longrightarrow>
   get rt this sid c w = (Inr None, w')"
  by (simp add: get_def Let_def await_Inr [OF call_Inr] resolve_def)

lemma get_present:
  "redis_get rt (getKey this sid) w = (Inr (Some d), w') \<Longrightarrow> deserializeSession d = Some s \<Longrightarrow>
   get rt this sid c w =
     (if s_userId s \<noteq> None \<and> (c = None \<or> c \<noteq> s_userId s)
      then (Inl (UserIdMismatchError (s_id s)), w') else (Inr (Some s), w'))"
  by (simp add: get_def Let_def await_Inr [OF call_Inr] resolve_def reject_def validateUserId_def)

lemma get_Some_valid:
  assumes "get rt this sid c w = (Inr (Some s), w')"
  shows "valid_session s"
    and "\<not> (s_userId s \<noteq> None \<and> (c = None \<or> c \<noteq> s_userId s))"
    and "\<exists>d. redis_get rt (getKey this sid) w = (Inr (Some d), w') \<and> deserializeSession d = Some s"
proof -
  show "\<exists>d. redis_get rt (getKey this sid) w = (Inr (Some d), w') \<and> deserializeSession d = Some s"
    using assms
    by (cases rule: call_cases [of "redis_get rt (getKey this sid)" w])
      (auto simp: get_def Let_def await_def resolve_def reject_def
        split: option.splits sum.splits)
  then obtain d where d: "redis_get rt (getKey this sid) w = (Inr (Some d), w')"
    "deserializeSession d = Some s" by blast
  show "valid_session s" using d(2) by (rule deserializeSession_valid)
  show "\<not> (s_userId s \<noteq> None \<and> (c = None \<or> c \<noteq> s_userId s))"
    using assms get_present [OF d, of c] by (auto split: if_splits)
qed

lemma update_after_get:
  assumes "get rt this sid c w = (Inr (Some s), w1)" "new_Date rt w1 = (now, w2)"
  shows "update rt this sid u c w =
    await (call (redis_ttl rt (getKey this sid))) (\<lambda>ttl.
      await (call (redis_setex rt (getKey this sid) (if ttl > 0 then ttl else ttlSeconds this)
               (serializeSession ((spread s u) \<lparr> s_lastModified := now \<rparr>))))
        (\<lambda>_. resolve ())) w2"
  using assms by (simp add: update_def await_def sync_def Let_def)

lemma update_get_rejects:
  "get rt this sid c w = (Inl e, w') \<Longrightarrow> update rt this sid u c w = (Inl e, w')"
  by (simp add: update_def await_Inl)

lemma update_absent:
  "get rt this sid c w = (Inr None, w') \<Longrightarrow>
   update rt this sid u c w = (Inl (SessionNotFoundError sid), w')"
  by (simp add: update_def await_Inr reject_def)

lemma delete_get_rejects:
  "get rt this sid c w = (Inl e, w') \<Longrightarrow> delete rt this sid c w = (Inl e, w')"
  by (simp add: delete_def await_Inl)

lemma delete_absent:
  "get rt this sid c w = (Inr None, w') \<Longrightarrow>
   delete rt this sid c w = (Inl (SessionNotFoundError sid), w')"
  by (simp add: delete_def await_Inr reject_def)

lemma delete_after_get:
  "get rt this sid c w = (Inr (Some s), w1) \<Longrightarrow>
   delete rt this sid c w =
     await (call (redis_del rt (getKey this sid))) (\<lambda>_. resolve ()) w1"
  by (simp add: delete_def await_Inr Let_def)


lemma store_write_outcome:
  "(\<exists>w'. await (call m) (\<lambda>_. resolve ()) w = (Inr (), w'))
   \<or> (\<exists>msg w'. await (call m) (\<lambda>_. resolve ()) w = (Inl (ClientError msg), w'))"
  by (cases rule: call_cases [of m w]) (simp_all add: await_def resolve_def)

lemma update_outcome:
  assumes "get rt this sid c w = (Inr (Some s), w1)"
  shows "fst (update rt this sid u c w) = Inr ()
       \<or> (\<exists>msg. fst (update rt this sid u c w) = Inl (ClientError msg))"
proof -
  obtain now w2 where n: "new_Date rt w1 = (now, w2)"
    by (cases "new_Date rt w1") auto
  note upd = update_after_get [OF assms n, of u]
  let ?key = "getKey this sid"
  show ?thesis
  proof (cases rule: call_cases [of "redis_ttl rt ?key" w2])
    case (fault msg w3)
    then show ?thesis
      unfolding upd by (simp add: await_def)
  next
    case (reply ttl w3)
    then show ?thesis
      unfolding upd
      using store_write_outcome [of "redis_setex rt ?key (if ttl > 0 then ttl else ttlSeconds this)
              (serializeSession ((spread s u) \<lparr> s_lastModified := now \<rparr>))" w3]
      by (auto simp: await_def)
  qed
qed

lemma delete_outcome:
  assumes "get rt this sid c w = (Inr (Some s), w1)"
  shows "fst (delete rt this sid c w) = Inr ()
       \<or> (\<exists>msg. fst (delete rt this sid c w) = Inl (ClientError msg))"
  unfolding delete_after_get [OF assms]
  using store_write_outcome [of "redis_del rt (getKey this sid)" w1] by auto


section \<open>The store against the server of the tests\<close>

lemma mock_commands:
  "redis_get mock key w = (Inr (map_option fst (mockData w key)), w)"
  "redis_setex mock key ttl val w = (Inr (), w \<lparr> mockData := (mockData w)(key \<mapsto> (val, ttl)) \<rparr>)"
  "redis_ttl mock key w = (Inr (case mockData w key of None \<Rightarrow> - 2 | Some (val, ttl) \<Rightarrow> ttl), w)"
  "redis_del mock key w =
     (Inr (if mockData w key = None then 0 else 1), w \<lparr> mockData := (mockData w)(key := None) \<rparr>)"
  "redis_exists mock key w = (Inr (if mockData w key = None then 0 else 1), w)"
  "nanoid mock n w = (ids w (drawn w), w \<lparr> drawn := drawn w + 1 \<rparr>)"
  "new_Date mock w = (clock w (reads w), w \<lparr> reads := reads w + 1 \<rparr>)"
  by (simp_all add: mock_def)

lemma mock_get_absent:
  "mockData w (getKey this sid) = None \<Longrightarrow> get mock this sid c w = (Inr None, w)"
  by (rule get_absent) (simp add: mock_commands)

lemma mock_get:
  assumes "mockData w (getKey this sid) = Some (d, ttl)" "deserializeSession d = Some s"
  shows "get mock this sid c w =
     (if s_userId s \<noteq> None \<and> (c = None \<or> c \<noteq> s_userId s)
      then (Inl (UserIdMismatchError (s_id s)), w) else (Inr (Some s), w))"
  by (rule get_present [OF _ assms(2)]) (simp add: mock_commands assms(1))

lemma mock_get_stored:
  assumes "mockData w (getKey this sid) = Some (serializeSession s, ttl)" "valid_session s"
  shows "get mock this sid c w =
     (if s_userId s \<noteq> None \<and> (c = None \<or> c \<noteq> s_userId s)
      then (Inl (UserIdMismatchError (s_id s)), w) else (Inr (Some s), w))"
  by (rule mock_get [OF assms(1) deserialize_serialize [OF assms(2)]])

lemma mock_get_Some:
  assumes "get mock this sid c w = (Inr (Some s), w')"
  shows "w' = w" and "\<exists>d ttl. mockData w (getKey this sid) = Some (d, ttl) \<and> deserializeSession d = Some s"
  using get_Some_valid(3) [OF assms] by (auto simp: mock_commands)

lemma mock_update:
  assumes "get mock this sid c w = (Inr (Some s), w)"
    and "mockData w (getKey this sid) = Some (d, ttl)"
  shows "update mock this sid u c w =
    (Inr (), w \<lparr> mockData := (mockData w)(getKey this sid \<mapsto>
                    (serializeSession ((spread s u) \<lparr> s_lastModified := clock w (reads w) \<rparr>),
                     if ttl > 0 then ttl else ttlSeconds this)),
                 reads := reads w + 1 \<rparr>)"
  unfolding update_after_get [OF assms(1) mock_commands(7)]
  using assms(2) by (simp add: await_def call_def resolve_def mock_commands)

lemma mock_delete:
  assumes "get mock this sid c w = (Inr (Some s), w)"
  shows "delete mock this sid c w = (Inr (), w \<lparr> mockData := (mockData w)(getKey this sid := None) \<rparr>)"
  unfolding delete_after_get [OF assms]
  by (simp add: await_def call_def resolve_def mock_commands)

lemma mock_exists:
  "exists mock this sid w = (Inr (mockData w (getKey this sid) \<noteq> None), w)"
  by (simp add: exists_def Let_def await_def call_def resolve_def mock_commands)

lemma valid_alice: "valid_session alice_session"
  by (simp add: valid_session_def valid_todo_def valid_time_def alice_session_def)

lemma valid_open: "valid_session open_session"
  by (simp add: valid_session_def valid_todo_def valid_time_def open_session_def)

lemma alice_key: "getKey test_store (s_id alice_session) = ''test:session:V1StGXR8_Z5jdHi6B-000''"
  by (simp add: getKey_def test_store_def new_RedisSessionStore_def alice_session_def)

lemma open_key: "getKey test_store (s_id open_session) = ''test:session:V1StGXR8_Z5jdHi6B-001''"
  by (simp add: getKey_def test_store_def new_RedisSessionStore_def open_session_def)

lemma world1_alice:
  "mockData world1 (getKey test_store (s_id alice_session)) = Some (serializeSession alice_session, 1200)"
  by (simp add: world1_def alice_key open_key)

lemma world1_open:
  "mockData world1 (getKey test_store (s_id open_session)) = Some (serializeSession open_session, 1800)"
  by (simp add: world1_def alice_key open_key)

lemma world1_get_alice:
  "get mock test_store (s_id alice_session) (Some ''alice'') world1 = (Inr (Some alice_session), world1)"
  using mock_get_stored [OF world1_alice valid_alice, of "Some ''alice''"]
  by (simp add: alice_session_def)


lemma get_runtime:
  "redis_get rt' = redis_get rt \<Longrightarrow> get rt' this sid c w = get rt this sid c w"
  by (simp add: get_def)

lemma world1_redis_get_alice:
  "redis_get mock (getKey test_store (s_id alice_session)) world1
     = (Inr (Some (serializeSession alice_session)), world1)"
  by (simp add: mock_commands world1_alice)

lemma world1_redis_get_open:
  "redis_get mock (getKey test_store (s_id open_session)) world1
     = (Inr (Some (serializeSession open_session)), world1)"
  by (simp add: mock_commands world1_open)

lemma world1_new_Date:
  "new_Date rt = new_Date mock \<Longrightarrow>
   new_Date rt world1 = (1737194400050, world1 \<lparr> reads := 6 \<rparr>)"
  by (simp add: mock_commands world1_def world0_def)


section \<open>Owner validation\<close>

text \<open>
  C2. For a stored session \<open>s\<close> (the GET command replies with its document) and a caller
  \<open>c\<close>, possibly absent: \<open>get\<close> rejects with the owner-mismatch error exactly when
  \<open>s\<close> has a userId and \<open>c\<close> is absent or another identity, and otherwise resolves with
  \<open>s\<close>; so a session without userId accepts every caller. \<open>update\<close> and \<open>delete\<close>
  reject with the same error in the same case, in the world the GET left, before any
  other command is sent; in the other case they never reject with it.
\<close>

theorem owner_validation:
  assumes "redis_get rt (getKey this sid) w = (Inr (Some d), w')"
    and "deserializeSession d = Some s"
  shows "(s_userId s \<noteq> None \<and> (c = None \<or> c \<noteq> s_userId s) \<longrightarrow>
            get rt this sid c w = (Inl (UserIdMismatchError (s_id s)), w')
          \<and> update rt this sid u c w = (Inl (UserIdMismatchError (s_id s)), w')
          \<and> delete rt this sid c w = (Inl (UserIdMismatchError (s_id s)), w'))
       \<and> (\<not> (s_userId s \<noteq> None \<and> (c = None \<or> c \<noteq> s_userId s)) \<longrightarrow>
            get rt this sid c w = (Inr (Some s), w')
          \<and> (\<forall>x. fst (update rt this sid u c w) \<noteq> Inl (UserIdMismatchError x))
          \<and> (\<forall>x. fst (delete rt this sid c w) \<noteq> Inl (UserIdMismatchError x)))"
proof (intro conjI impI)
  assume m: "s_userId s \<noteq> None \<and> (c = None \<or> c \<noteq> s_userId s)"
  then show g: "get rt this sid c w = (Inl (UserIdMismatchError (s_id s)), w')"
    using get_present [OF assms, of c] by simp
  show "update rt this sid u c w = (Inl (UserIdMismatchError (s_id s)), w')"
    by (rule update_get_rejects [OF g])
  show "delete rt this sid c w = (Inl (UserIdMismatchError (s_id s)), w')"
    by (rule delete_get_rejects [OF g])
next
  assume m: "\<not> (s_userId s \<noteq> None \<and> (c = None \<or> c \<noteq> s_userId s))"
  then show g: "get rt this sid c w = (Inr (Some s), w')"
    using get_present [OF assms, of c] by simp
  show "\<forall>x. fst (update rt this sid u c w) \<noteq> Inl (UserIdMismatchError x)"
    using update_outcome [OF g, of u] by auto
  show "\<forall>x. fst (delete rt this sid c w) \<noteq> Inl (UserIdMismatchError x)"
    using delete_outcome [OF g] by auto
qed

theorem owner_validation_witness:
  "get mock test_store (s_id alice_session) None world1
     = (Inl (UserIdMismatchError (s_id alice_session)), world1)
   \<and> update mock test_store (s_id alice_session) (todos_update []) (Some ''bob'') world1
     = (Inl (UserIdMismatchError (s_id alice_session)), world1)
   \<and> delete mock test_store (s_id alice_session) (Some ''bob'') world1
     = (Inl (UserIdMismatchError (s_id alice_session)), world1)
   \<and> get mock test_store (s_id alice_session) (Some ''alice'') world1
     = (Inr (Some alice_session), world1)
   \<and> get mock test_store (s_id open_session) None world1 = (Inr (Some open_session), world1)
   \<and> get mock test_store (s_id open_session) (Some ''bob'') world1
     = (Inr (Some open_session), world1)"
proof -
  note a = owner_validation [OF world1_redis_get_alice deserialize_serialize [OF valid_alice]]
  note b = owner_validation [OF world1_redis_get_open deserialize_serialize [OF valid_open]]
  have ua: "s_userId alice_session = Some ''alice''" by (simp add: alice_session_def)
  have uo: "s_userId open_session = None" by (simp add: open_session_def)
  show ?thesis
    using a [of None] a [of "Some ''bob''" "todos_update []"] a [of "Some ''alice''"]
      b [of None] b [of "Some ''bob''"]
    by (simp add: ua uo)
qed


section \<open>The TTL written by an update\<close>

text \<open>
  C3. In an update of an existing session, once the TTL query has replied \<open>ttl\<close>, what
  the update does is the one SETEX of the new value: with the TTL \<open>ttl\<close> when \<open>ttl\<close> is
  positive, and with the full configured TTL \<open>ttlSeconds\<close> when it is not (\<open>-2\<close>, the key is
  gone; also \<open>-1\<close> and \<open>0\<close>). With a positive configured TTL the TTL written is positive.
\<close>

theorem update_preserves_remaining_ttl:
  assumes "get rt this sid c w = (Inr (Some s), w1)"
    and "new_Date rt w1 = (now, w2)"
    and "redis_ttl rt (getKey this sid) w2 = (Inr ttl, w3)"
  shows "(0 < ttl \<longrightarrow>
            update rt this sid u c w =
              await (call (redis_setex rt (getKey this sid) ttl
                       (serializeSession ((spread s u) \<lparr> s_lastModified := now \<rparr>))))
                (\<lambda>_. resolve ()) w3)
       \<and> (ttl \<le> 0 \<longrightarrow>
            update rt this sid u c w =
              await (call (redis_setex rt (getKey this sid) (ttlSeconds this)
                       (serializeSession ((spread s u) \<lparr> s_lastModified := now \<rparr>))))
                (\<lambda>_. resolve ()) w3)
       \<and> (0 < ttlSeconds this \<longrightarrow>
            (\<exists>newTtl. 0 < newTtl \<and>
              update rt this sid u c w =
                await (call (redis_setex rt (getKey this sid) newTtl
                         (serializeSession ((spread s u) \<lparr> s_lastModified := now \<rparr>))))
                  (\<lambda>_. resolve ()) w3))"
proof -
  let ?setex_with = "\<lambda>n. await (call (redis_setex rt (getKey this sid) n
                       (serializeSession ((spread s u) \<lparr> s_lastModified := now \<rparr>))))
                (\<lambda>_. resolve ()) w3"
  have upd: "update rt this sid u c w = ?setex_with (if ttl > 0 then ttl else ttlSeconds this)"
    unfolding update_after_get [OF assms(1,2)]
    using assms(3) by (simp add: await_def call_def)
  show ?thesis
  proof (intro conjI impI)
    assume "0 < ttl"
    then show "update rt this sid u c w = ?setex_with ttl" using upd by simp
  next
    assume "ttl \<le> 0"
    then show "update rt this sid u c w = ?setex_with (ttlSeconds this)" using upd by simp
  next
    assume "0 < ttlSeconds this"
    then have "0 < (if ttl > 0 then ttl else ttlSeconds this)" by simp
    then show "\<exists>newTtl. 0 < newTtl \<and> update rt this sid u c w = ?setex_with newTtl"
      using upd by blast
  qed
qed

theorem update_preserves_remaining_ttl_witness:
  "update mock test_store (s_id alice_session) (todos_update []) (Some ''alice'') world1
     = (Inr (), world1 \<lparr> reads := 6, mockData := (mockData world1)
          (getKey test_store (s_id alice_session) \<mapsto>
             (serializeSession ((spread alice_session (todos_update []))
                \<lparr> s_lastModified := 1737194400050 \<rparr>), 1200)) \<rparr>)
   \<and> update expires_before_ttl test_store (s_id alice_session) (todos_update []) (Some ''alice'')
       world1
     = (Inr (), world1 \<lparr> reads := 6, mockData := (mockData world1)
          (getKey test_store (s_id alice_session) \<mapsto>
             (serializeSession ((spread alice_session (todos_update []))
                \<lparr> s_lastModified := 1737194400050 \<rparr>), 3600)) \<rparr>)"
proof -
  let ?key = "getKey test_store (s_id alice_session)"
  let ?w2 = "world1 \<lparr> reads := 6 \<rparr>"
  have t: "redis_ttl mock ?key ?w2 = (Inr 1200, ?w2)"
    by (simp add: mock_commands world1_alice)
  have g': "get expires_before_ttl test_store (s_id alice_session) (Some ''alice'') world1
      = (Inr (Some alice_session), world1)"
    unfolding get_runtime [of expires_before_ttl mock, OF expires_before_ttl_def [THEN arg_cong, of redis_get, simplified]]
    by (rule world1_get_alice)
  have t': "redis_ttl expires_before_ttl ?key ?w2
      = (Inr (- 2), ?w2 \<lparr> mockData := (mockData ?w2)(?key := None) \<rparr>)"
    by (simp add: expires_before_ttl_def)
  have secs: "ttlSeconds test_store = 3600"
    by (simp add: test_store_def new_RedisSessionStore_def)
  have 1: "update mock test_store (s_id alice_session) (todos_update []) (Some ''alice'') world1
     = (Inr (), world1 \<lparr> reads := 6, mockData := (mockData world1)
          (?key \<mapsto> (serializeSession ((spread alice_session (todos_update []))
                \<lparr> s_lastModified := 1737194400050 \<rparr>), 1200)) \<rparr>)"
    using update_preserves_remaining_ttl [OF world1_get_alice world1_new_Date [OF refl] t,
        of "todos_update []"]
    by (simp add: await_def call_def resolve_def mock_commands)
  have 2: "update expires_before_ttl test_store (s_id alice_session) (todos_update [])
       (Some ''alice'') world1
     = (Inr (), world1 \<lparr> reads := 6, mockData := (mockData world1)
          (?key \<mapsto> (serializeSession ((spread alice_session (todos_update []))
                \<lparr> s_lastModified := 1737194400050 \<rparr>), 3600)) \<rparr>)"
    using update_preserves_remaining_ttl [OF g' world1_new_Date t', of "todos_update []"]
    by (simp add: await_def call_def resolve_def mock_commands expires_before_ttl_def secs)
  from 1 2 show ?thesis by (rule conjI)
qed


section \<open>Faults of the connection\<close>

text \<open>
  C4. A command of the client that fails with a transport fault makes \<open>get\<close> and
  \<open>update\<close> reject with that fault, the \<open>ClientError\<close>: at the GET for both, and for
  \<open>update\<close> also at the TTL query and at the SETEX. \<open>ClientError\<close> is neither the null
  result \<open>Inr None\<close> nor a \<open>SessionNotFoundError\<close>.
\<close>

theorem fault_propagates:
  "(redis_get rt (getKey this sid) w = (Inl msg, w') \<longrightarrow>
      get rt this sid c w = (Inl (ClientError msg), w')
    \<and> update rt this sid u c w = (Inl (ClientError msg), w'))
   \<and> (get rt this sid c w = (Inr (Some s), w1) \<and> new_Date rt w1 = (now, w2)
      \<and> redis_ttl rt (getKey this sid) w2 = (Inl msg, w3) \<longrightarrow>
      update rt this sid u c w = (Inl (ClientError msg), w3))
   \<and> (get rt this sid c w = (Inr (Some s), w1) \<and> new_Date rt w1 = (now, w2)
      \<and> redis_ttl rt (getKey this sid) w2 = (Inr ttl, w3)
      \<and> redis_setex rt (getKey this sid) (if ttl > 0 then ttl else ttlSeconds this)
           (serializeSession ((spread s u) \<lparr> s_lastModified := now \<rparr>)) w3 = (Inl msg, w4) \<longrightarrow>
      update rt this sid u c w = (Inl (ClientError msg), w4))
   \<and> ClientError msg \<noteq> SessionNotFoundError sid
   \<and> (Inl (ClientError msg) :: error + Session option) \<noteq> Inr None"
proof (intro conjI impI)
  assume f: "redis_get rt (getKey this sid) w = (Inl msg, w')"
  show g: "get rt this sid c w = (Inl (ClientError msg), w')"
    by (rule get_fault [OF f])
  show "update rt this sid u c w = (Inl (ClientError msg), w')"
    by (rule update_get_rejects [OF g])
next
  assume a: "get rt this sid c w = (Inr (Some s), w1) \<and> new_Date rt w1 = (now, w2)
      \<and> redis_ttl rt (getKey this sid) w2 = (Inl msg, w3)"
  then have g: "get rt this sid c w = (Inr (Some s), w1)" and n: "new_Date rt w1 = (now, w2)"
    and t: "redis_ttl rt (getKey this sid) w2 = (Inl msg, w3)" by simp_all
  show "update rt this sid u c w = (Inl (ClientError msg), w3)"
    unfolding update_after_get [OF g n] using t by (simp add: await_def call_def)
next
  assume a: "get rt this sid c w = (Inr (Some s), w1) \<and> new_Date rt w1 = (now, w2)
      \<and> redis_ttl rt (getKey this sid) w2 = (Inr ttl, w3)
      \<and> redis_setex rt (getKey this sid) (if ttl > 0 then ttl else ttlSeconds this)
           (serializeSession ((spread s u) \<lparr> s_lastModified := now \<rparr>)) w3 = (Inl msg, w4)"
  then have g: "get rt this sid c w = (Inr (Some s), w1)" and n: "new_Date rt w1 = (now, w2)"
    and t: "redis_ttl rt (getKey this sid) w2 = (Inr ttl, w3)"
    and x: "redis_setex rt (getKey this sid) (if ttl > 0 then ttl else ttlSeconds this)
           (serializeSession ((spread s u) \<lparr> s_lastModified := now \<rparr>)) w3 = (Inl msg, w4)"
    by simp_all
  show "update rt this sid u c w = (Inl (ClientError msg), w4)"
    unfolding update_after_get [OF g n] using t x by (simp add: await_def call_def)
qed simp_all

theorem fault_propagates_witness:
  "get unreachable test_store (s_id alice_session) (Some ''alice'') world1
     = (Inl (ClientError ''Connection is closed.''), world1)
   \<and> update unreachable test_store (s_id alice_session) (todos_update []) (Some ''alice'') world1
     = (Inl (ClientError ''Connection is closed.''), world1)
   \<and> update lost_at_ttl test_store (s_id alice_session) (todos_update []) (Some ''alice'') world1
     = (Inl (ClientError ''Connection is closed.''), world1 \<lparr> reads := 6 \<rparr>)
   \<and> update lost_at_setex test_store (s_id alice_session) (todos_update []) (Some ''alice'') world1
     = (Inl (ClientError ''Connection is closed.''), world1 \<lparr> reads := 6 \<rparr>)"
proof -
  let ?key = "getKey test_store (s_id alice_session)"
  let ?w2 = "world1 \<lparr> reads := 6 \<rparr>"
  have f: "redis_get unreachable ?key world1 = (Inl ''Connection is closed.'', world1)"
    by (simp add: unreachable_def connection_closed_def)
  have g1: "get lost_at_ttl test_store (s_id alice_session) (Some ''alice'') world1
      = (Inr (Some alice_session), world1)"
    unfolding get_runtime [of lost_at_ttl mock, OF lost_at_ttl_def [THEN arg_cong, of redis_get, simplified]]
    by (rule world1_get_alice)
  have g2: "get lost_at_setex test_store (s_id alice_session) (Some ''alice'') world1
      = (Inr (Some alice_session), world1)"
    unfolding get_runtime [of lost_at_setex mock, OF lost_at_setex_def [THEN arg_cong, of redis_get, simplified]]
    by (rule world1_get_alice)
  have n1: "new_Date lost_at_ttl world1 = (1737194400050, ?w2)"
    by (rule world1_new_Date) (simp add: lost_at_ttl_def)
  have n2: "new_Date lost_at_setex world1 = (1737194400050, ?w2)"
    by (rule world1_new_Date) (simp add: lost_at_setex_def)
  have t1: "redis_ttl lost_at_ttl ?key ?w2 = (Inl ''Connection is closed.'', ?w2)"
    by (simp add: lost_at_ttl_def connection_closed_def)
  have t2: "redis_ttl lost_at_setex ?key ?w2 = (Inr 1200, ?w2)"
    by (simp add: lost_at_setex_def mock_commands world1_alice)
  have x2: "redis_setex lost_at_setex ?key (if 1200 > 0 then 1200 else ttlSeconds test_store)
      (serializeSession ((spread alice_session (todos_update [])) \<lparr> s_lastModified := 1737194400050 \<rparr>))
      ?w2 = (Inl ''Connection is closed.'', ?w2)"
    by (simp add: lost_at_setex_def connection_closed_def)
  note A = fault_propagates [where rt = unreachable and this = test_store
        and sid = "s_id alice_session" and w = world1 and msg = "''Connection is closed.''"
        and w' = world1 and c = "Some ''alice''" and u = "todos_update []",
        THEN conjunct1, rule_format, OF f]
  note B = fault_propagates [where rt = lost_at_ttl and this = test_store
        and sid = "s_id alice_session" and w = world1 and msg = "''Connection is closed.''"
        and c = "Some ''alice''" and u = "todos_update []" and s = alice_session and ?w1.0 = world1
        and now = 1737194400050 and ?w2.0 = ?w2 and ?w3.0 = ?w2,
        THEN conjunct2, THEN conjunct1, rule_format, OF conjI [OF g1 conjI [OF n1 t1]]]
  note C = fault_propagates [where rt = lost_at_setex and this = test_store
        and sid = "s_id alice_session" and w = world1 and msg = "''Connection is closed.''"
        and c = "Some ''alice''" and u = "todos_update []" and s = alice_session and ?w1.0 = world1
        and now = 1737194400050 and ?w2.0 = ?w2 and ttl = 1200 and ?w3.0 = ?w2 and ?w4.0 = ?w2,
        THEN conjunct2, THEN conjunct2, THEN conjunct1, rule_format,
        OF conjI [OF g2 conjI [OF n2 conjI [OF t2 x2]]]]
  from A B C show ?thesis by blast
qed


section \<open>The userId of a stored session under update\<close>

lemma deserializeSession_userId:
  "deserializeSession d = Some s \<Longrightarrow> s_userId s = ss_userId d"
  by (auto simp: deserializeSession_def split: Option.bind_splits)

lemma mock_update_succeeds:
  assumes "update mock this sid u c w = (Inr (), w')"
  obtains s d ttl where "get mock this sid c w = (Inr (Some s), w)"
    and "mockData w (getKey this sid) = Some (d, ttl)" and "deserializeSession d = Some s"
proof (cases "get mock this sid c w")
  case (Pair r w1)
  show ?thesis
  proof (cases r)
    case (Inl e)
    then show ?thesis
      using update_get_rejects [of mock this sid c w e w1 u] Pair assms by simp
  next
    case (Inr found)
    show ?thesis
    proof (cases found)
      case None
      then show ?thesis
        using update_absent [of mock this sid c w w1 u] Pair Inr assms by simp
    next
      case (Some s)
      then have g: "get mock this sid c w = (Inr (Some s), w1)"
        using Pair Inr by simp
      from mock_get_Some [OF g] that g show ?thesis by blast
    qed
  qed
qed

text \<open>
  C1, for the updates the store's callers make. After an update that succeeds and whose
  \<open>updates\<close> argument has no userId property, the record stored under the key carries
  the userId that was stored before: it is neither cleared nor changed.
\<close>

theorem update_userId:
  assumes "mockData w (getKey this sid) = Some (d, ttl)"
    and "update mock this sid u c w = (Inr (), w')"
    and "u_userId u = None"
  shows "\<exists>d' ttl'. mockData w' (getKey this sid) = Some (d', ttl')
           \<and> ss_userId d' = ss_userId d"
proof -
  from assms(2) obtain s d0 ttl0 where g: "get mock this sid c w = (Inr (Some s), w)"
    and st: "mockData w (getKey this sid) = Some (d0, ttl0)"
    and ds: "deserializeSession d0 = Some s"
    by (rule mock_update_succeeds)
  from st assms(1) have "d0 = d" by simp
  with ds have uid: "s_userId s = ss_userId d"
    by (simp add: deserializeSession_userId)
  have kept: "s_userId (spread s u) = s_userId s"
    using assms(3) by (simp add: spread_def)
  from mock_update [OF g assms(1), of u] assms(2)
  have "w' = w \<lparr> mockData := (mockData w)(getKey this sid \<mapsto>
                    (serializeSession ((spread s u) \<lparr> s_lastModified := clock w (reads w) \<rparr>),
                     if ttl > 0 then ttl else ttlSeconds this)),
                 reads := reads w + 1 \<rparr>"
    by simp
  then show ?thesis
    using kept uid by (simp add: serializeSession_def)
qed

theorem update_userId_witness:
  "mockData world1 (getKey test_store (s_id alice_session))
     = Some (serializeSession alice_session, 1200)
   \<and> ss_userId (serializeSession alice_session) = Some ''alice''
   \<and> u_userId (todos_update []) = None
   \<and> fst (update mock test_store (s_id alice_session) (todos_update []) (Some ''alice'') world1)
     = Inr ()
   \<and> (\<exists>d' ttl'. mockData (snd (update mock test_store (s_id alice_session)
        (todos_update []) (Some ''alice'') world1)) (getKey test_store (s_id alice_session))
      = Some (d', ttl') \<and> ss_userId d' = Some ''alice'')"
proof -
  let ?r = "update mock test_store (s_id alice_session) (todos_update []) (Some ''alice'') world1"
  have ok: "fst ?r = Inr ()"
    by (simp add: mock_update [OF world1_get_alice world1_alice])
  then have r: "?r = (Inr (), snd ?r)"
    by (simp add: prod_eq_iff)
  have ua: "ss_userId (serializeSession alice_session) = Some ''alice''"
    by (simp add: serializeSession_def alice_session_def)
  have none: "u_userId (todos_update []) = None"
    by (simp add: todos_update_def)
  from update_userId [OF world1_alice r none]
  have "\<exists>d' ttl'. mockData (snd ?r) (getKey test_store (s_id alice_session)) = Some (d', ttl')
      \<and> ss_userId d' = Some ''alice''"
    unfolding ua .
  with world1_alice ua none ok show ?thesis
    by (intro conjI)
qed

text \<open>
  C1 as stated fails, since it speaks of every \<open>updates\<close> argument: the owner
  \<^verbatim>\<open>alice\<close> updates her session with a userId property. The update succeeds and the
  stored userId is another one; with the property set to \<^verbatim>\<open>undefined\<close> the stored
  record has no userId any more. The todo tools pass a todos property only.
\<close>

theorem update_changes_userId:
  "map_option (ss_userId \<circ> fst) (mockData world1 (getKey test_store (s_id alice_session)))
     = Some (Some ''alice'')
   \<and> fst (update mock test_store (s_id alice_session)
        \<lparr> u_userId = Some (Some ''mallory''), u_scratchpad = None, u_todos = None,
          u_lastModified = None \<rparr> (Some ''alice'') world1) = Inr ()
   \<and> map_option (ss_userId \<circ> fst)
        (mockData (snd (update mock test_store (s_id alice_session)
           \<lparr> u_userId = Some (Some ''mallory''), u_scratchpad = None, u_todos = None,
             u_lastModified = None \<rparr> (Some ''alice'') world1))
         (getKey test_store (s_id alice_session)))
     = Some (Some ''mallory'')
   \<and> fst (update mock test_store (s_id alice_session)
        \<lparr> u_userId = Some None, u_scratchpad = None, u_todos = None,
          u_lastModified = None \<rparr> (Some ''alice'') world1) = Inr ()
   \<and> map_option (ss_userId \<circ> fst)
        (mockData (snd (update mock test_store (s_id alice_session)
           \<lparr> u_userId = Some None, u_scratchpad = None, u_todos = None,
             u_lastModified = None \<rparr> (Some ''alice'') world1))
         (getKey test_store (s_id alice_session)))
     = Some None"
proof -
  have ua: "s_userId alice_session = Some ''alice''"
    by (simp add: alice_session_def)
  show ?thesis
    by (simp add: mock_update [OF world1_get_alice world1_alice] world1_alice
        serializeSession_def spread_def ua)
qed


section \<open>Generating a session id\<close>

lemma generateUniqueId_loop_mock:
  "n \<le> 10 \<Longrightarrow>
   generateUniqueId_loop mock this (10 - n) w =
     (case find (\<lambda>c. mockData w (getKey this c) = None) (map (ids w) [drawn w ..< drawn w + n]) of
        Some c \<Rightarrow> Inr c
      | None \<Rightarrow> Inl (Error ''Failed to generate unique session ID after maximum attempts''),
      w \<lparr> drawn := drawn w + length (takeWhile (\<lambda>c. mockData w (getKey this c) \<noteq> None)
                                        (map (ids w) [drawn w ..< drawn w + n])) + 1 \<rparr>)"
proof (induction n arbitrary: w)
  case 0
  show ?case
    by (subst generateUniqueId_loop.simps) (simp add: mock_commands maxAttempts_def)
next
  case (Suc n)
  let ?w1 = "w \<lparr> drawn := drawn w + 1 \<rparr>"
  have a: "10 - Suc n + 1 = 10 - n" "\<not> 10 - n > maxAttempts"
    using Suc.prems by (simp_all add: maxAttempts_def)
  have cands: "[drawn w ..< drawn w + Suc n] = drawn w # [drawn ?w1 ..< drawn ?w1 + n]"
    by (simp add: upt_conv_Cons)
  have ih: "generateUniqueId_loop mock this (10 - n) ?w1 =
     (case find (\<lambda>c. mockData w (getKey this c) = None) (map (ids w) [drawn ?w1 ..< drawn ?w1 + n]) of
        Some c \<Rightarrow> Inr c
      | None \<Rightarrow> Inl (Error ''Failed to generate unique session ID after maximum attempts''),
      w \<lparr> drawn := drawn ?w1 + length (takeWhile (\<lambda>c. mockData w (getKey this c) \<noteq> None)
                                        (map (ids w) [drawn ?w1 ..< drawn ?w1 + n])) + 1 \<rparr>)"
    using Suc.IH [of ?w1] Suc.prems by simp
  have cands': "map (ids w) [drawn w ..< drawn w + Suc n]
      = ids w (drawn w) # map (ids w) [drawn ?w1 ..< drawn ?w1 + n]"
    unfolding cands by simp
  have step: "generateUniqueId_loop mock this (10 - Suc n) w =
      (if mockData w (getKey this (ids w (drawn w))) \<noteq> None
       then generateUniqueId_loop mock this (10 - n) ?w1
       else (Inr (ids w (drawn w)), ?w1))"
    by (subst generateUniqueId_loop.simps)
      (simp only: mock_commands prod.case a if_False mock_exists, simp)
  show ?case
  proof (cases "mockData w (getKey this (ids w (drawn w))) = None")
    case True
    then show ?thesis
      unfolding step cands' by simp
  next
    case False
    then show ?thesis
      unfolding step cands' ih by auto
  qed
qed

text \<open>
  C5. Whatever the server holds, \<open>generateUniqueId\<close> returns the first of the first ten
  generated candidates whose key does not exist, and throws its error exactly when all
  ten exist. It ends, having generated at most eleven candidates, and writes nothing.
\<close>

theorem generateUniqueId_first_free:
  "fst (generateUniqueId mock this w) =
     (case find (\<lambda>c. mockData w (getKey this c) = None) (map (ids w) [drawn w ..< drawn w + 10]) of
        Some c \<Rightarrow> Inr c
      | None \<Rightarrow> Inl (Error ''Failed to generate unique session ID after maximum attempts''))
   \<and> ((\<exists>e. fst (generateUniqueId mock this w) = Inl e) \<longleftrightarrow>
        (\<forall>i < 10. mockData w (getKey this (ids w (drawn w + i))) \<noteq> None))
   \<and> drawn (snd (generateUniqueId mock this w)) \<le> drawn w + 11
   \<and> mockData (snd (generateUniqueId mock this w)) = mockData w"
proof -
  let ?free = "\<lambda>c. mockData w (getKey this c) = None"
  let ?cands = "map (ids w) [drawn w ..< drawn w + 10]"
  have run: "generateUniqueId mock this w =
     (case find ?free ?cands of
        Some c \<Rightarrow> Inr c
      | None \<Rightarrow> Inl (Error ''Failed to generate unique session ID after maximum attempts''),
      w \<lparr> drawn := drawn w + length (takeWhile (\<lambda>c. \<not> ?free c) ?cands) + 1 \<rparr>)"
    unfolding generateUniqueId_def
    using generateUniqueId_loop_mock [of 10 this w] by simp
  have "length (takeWhile (\<lambda>c. \<not> ?free c) ?cands) \<le> length ?cands"
    by (rule length_takeWhile_le)
  then have few: "length (takeWhile (\<lambda>c. \<not> ?free c) ?cands) \<le> 10"
    by simp
  have none: "find ?free ?cands = None \<longleftrightarrow>
      (\<forall>i < 10. mockData w (getKey this (ids w (drawn w + i))) \<noteq> None)"
  proof
    assume "find ?free ?cands = None"
    then have all: "\<forall>c \<in> set ?cands. \<not> ?free c"
      by (simp add: find_None_iff)
    show "\<forall>i < 10. mockData w (getKey this (ids w (drawn w + i))) \<noteq> None"
    proof (intro allI impI)
      fix i :: nat
      assume "i < 10"
      then have "ids w (drawn w + i) \<in> set ?cands" by simp
      with all show "mockData w (getKey this (ids w (drawn w + i))) \<noteq> None" by blast
    qed
  next
    assume all: "\<forall>i < 10. mockData w (getKey this (ids w (drawn w + i))) \<noteq> None"
    have "\<And>c. c \<in> set ?cands \<Longrightarrow> \<not> ?free c"
    proof -
      fix c
      assume "c \<in> set ?cands"
      then obtain j where "drawn w \<le> j" "j < drawn w + 10" "c = ids w j" by auto
      then have "c = ids w (drawn w + (j - drawn w))" "j - drawn w < 10" by simp_all
      with all show "\<not> ?free c" by metis
    qed
    then show "find ?free ?cands = None"
      by (simp add: find_None_iff)
  qed
  show ?thesis
    unfolding run using few none by (auto split: option.splits)
qed


lemma pad3: "pad 3 0 = ''000''" "pad 3 1 = ''001''" "pad 3 2 = ''002''"
  by code_simp+

lemma world1_ids:
  "ids world1 0 = ''V1StGXR8_Z5jdHi6B-000''"
  "ids world1 1 = ''V1StGXR8_Z5jdHi6B-001''"
  "ids world1 2 = ''V1StGXR8_Z5jdHi6B-002''"
  "ids world1 (Suc 0) = ''V1StGXR8_Z5jdHi6B-001''"
  using pad3 by (simp_all add: world1_def world0_def del: pad.simps)

lemma test_key: "getKey test_store sid = ''test:session:'' @ sid"
  by (simp add: getKey_def test_store_def new_RedisSessionStore_def)

lemma world1_keys:
  "mockData world1 (getKey test_store ''V1StGXR8_Z5jdHi6B-000'') \<noteq> None"
  "mockData world1 (getKey test_store ''V1StGXR8_Z5jdHi6B-001'') \<noteq> None"
  "mockData world1 (getKey test_store ''V1StGXR8_Z5jdHi6B-002'') = None"
  by (simp_all add: world1_def test_key alice_session_def open_session_def)

theorem generateUniqueId_first_free_witness:
  "fst (generateUniqueId mock test_store (world1 \<lparr> drawn := 0 \<rparr>)) = Inr ''V1StGXR8_Z5jdHi6B-002''
   \<and> fst (generateUniqueId mock test_store (world1 \<lparr> ids := (\<lambda>k. ''V1StGXR8_Z5jdHi6B-000'') \<rparr>))
     = Inl (Error ''Failed to generate unique session ID after maximum attempts'')"
proof -
  let ?w = "world1 \<lparr> drawn := 0 \<rparr>"
  let ?v = "world1 \<lparr> ids := (\<lambda>k. ''V1StGXR8_Z5jdHi6B-000'') \<rparr>"
  have three: "[0 ..< 10] = 0 # 1 # 2 # [3 ..< 10]"
    by (simp add: upt_conv_Cons)
  have a: "find (\<lambda>c. mockData ?w (getKey test_store c) = None)
             (map (ids ?w) [drawn ?w ..< drawn ?w + 10]) = Some ''V1StGXR8_Z5jdHi6B-002''"
    by (simp add: three world1_ids world1_keys del: upt_Suc)
  have "\<forall>c \<in> set (map (ids ?v) [drawn ?v ..< drawn ?v + 10]).
          mockData ?v (getKey test_store c) \<noteq> None"
    using world1_keys(1) by auto
  then have b: "find (\<lambda>c. mockData ?v (getKey test_store c) = None)
             (map (ids ?v) [drawn ?v ..< drawn ?v + 10]) = None"
    unfolding find_None_iff by blast
  show ?thesis
    using generateUniqueId_first_free [of test_store ?w, THEN conjunct1]
      generateUniqueId_first_free [of test_store ?v, THEN conjunct1]
    unfolding a b by simp
qed


section \<open>Creating a session\<close>









section \<open>The todo tools\<close>

lemma findIndex_Some:
  "findIndex P xs = Some i \<Longrightarrow> i < length xs \<and> P (xs ! i) \<and> (\<forall>j < i. \<not> P (xs ! j))"
proof (induction xs arbitrary: i)
  case Nil
  then show ?case by simp
next
  case (Cons x xs)
  show ?case
  proof (cases "P x")
    case True
    with Cons.prems show ?thesis by simp
  next
    case False
    with Cons.prems obtain k where k: "findIndex P xs = Some k" "i = Suc k"
      by auto
    from Cons.IH [OF k(1)] False k(2) show ?thesis
      by (auto simp: nth_Cons split: nat.splits)
  qed
qed

lemma findIndex_None: "findIndex P xs = None \<longleftrightarrow> (\<forall>x \<in> set xs. \<not> P x)"
  by (induction xs) auto

lemma world_getSessionLock: "world (getSessionLock sid p) = world p"
  by (simp add: getSessionLock_def)

lemma sessionLocks_getSessionLock: "sessionLocks (getSessionLock sid p) = insert sid (sessionLocks p)"
  by (auto simp: getSessionLock_def)

lemma mock_update_then_get:
  assumes "get mock this sid c w = (Inr (Some s), w)"
    and "u_userId u = None"
    and "\<And>ts. u_todos u = Some ts \<Longrightarrow> list_all valid_todo ts"
    and "valid_time (clock w (reads w))"
  shows "fst (update mock this sid u c w) = Inr ()"
    and "get mock this sid c (snd (update mock this sid u c w))
         = (Inr (Some ((spread s u) \<lparr> s_lastModified := clock w (reads w) \<rparr>)),
            snd (update mock this sid u c w))"
proof -
  from mock_get_Some(2) [OF assms(1)] obtain d ttl
    where st: "mockData w (getKey this sid) = Some (d, ttl)" by blast
  note upd = mock_update [OF assms(1) st, of u]
  show "fst (update mock this sid u c w) = Inr ()"
    unfolding upd by simp
  let ?s' = "(spread s u) \<lparr> s_lastModified := clock w (reads w) \<rparr>"
  have vs: "valid_session s" and ok: "\<not> (s_userId s \<noteq> None \<and> (c = None \<or> c \<noteq> s_userId s))"
    using get_Some_valid(1,2) [OF assms(1)] by blast+
  have valid: "valid_session ?s'"
    using vs assms(3,4) by (auto simp: valid_session_def spread_def split: option.splits)
  have uid: "s_userId ?s' = s_userId s"
    using assms(2) by (simp add: spread_def)
  have stored: "mockData (snd (update mock this sid u c w)) (getKey this sid)
      = Some (serializeSession ?s', if ttl > 0 then ttl else ttlSeconds this)"
    unfolding upd by simp
  show "get mock this sid c (snd (update mock this sid u c w))
         = (Inr (Some ?s'), snd (update mock this sid u c w))"
    using mock_get_stored [OF stored valid, of c] ok unfolding uid by auto
qed

lemma deleteTodo_run:
  assumes "ctx_runtime ctx = mock"
    and "get mock (ctx_store ctx) sid (ctx_userId ctx) (world p) = (Inr (Some s), world p)"
    and "findIndex (\<lambda>x. t_id x = t) (s_todos s) = Some i"
    and "fst (update mock (ctx_store ctx) sid
           (todos_update (filter (\<lambda>x. t_id x \<noteq> t) (s_todos s))) (ctx_userId ctx) (world p)) = Inr ()"
  shows "world (snd (deleteTodo \<lparr> d_session_id = sid, d_todo_id = t \<rparr> ctx p))
    = snd (update mock (ctx_store ctx) sid
        (todos_update (filter (\<lambda>x. t_id x \<noteq> t) (s_todos s))) (ctx_userId ctx) (world p))"
proof -
  obtain w' where u: "update mock (ctx_store ctx) sid
        (todos_update (filter (\<lambda>x. t_id x \<noteq> t) (s_todos s))) (ctx_userId ctx) (world p) = (Inr (), w')"
    using assms(4) by (metis prod.collapse)
  show ?thesis
    unfolding deleteTodo_def
    by (simp add: Let_def runExclusive_def catch_def await_def resolve_def assms(1,2,3) u
        world_getSessionLock)
qed

lemma updateTodo_run:
  assumes "ctx_runtime ctx = mock"
    and "get mock (ctx_store ctx) sid (ctx_userId ctx) (world p) = (Inr (Some s), world p)"
    and "findIndex (\<lambda>x. t_id x = t) (s_todos s) = Some i"
    and "fst (update mock (ctx_store ctx) sid
           (todos_update ((s_todos s) [i := (s_todos s ! i) \<lparr> t_status := st \<rparr>]))
           (ctx_userId ctx) (world p)) = Inr ()"
  shows "world (snd (updateTodo \<lparr> u_session_id = sid, u_todo_id = t, u_status = st \<rparr> ctx p))
    = snd (update mock (ctx_store ctx) sid
        (todos_update ((s_todos s) [i := (s_todos s ! i) \<lparr> t_status := st \<rparr>]))
        (ctx_userId ctx) (world p))"
proof -
  obtain w' where u: "update mock (ctx_store ctx) sid
        (todos_update ((s_todos s) [i := (s_todos s ! i) \<lparr> t_status := st \<rparr>]))
        (ctx_userId ctx) (world p) = (Inr (), w')"
    using assms(4) by (metis prod.collapse)
  show ?thesis
    unfolding updateTodo_def
    by (simp add: Let_def runExclusive_def catch_def await_def resolve_def assms(1,2,3) u
        world_getSessionLock)
qed

text \<open>
  C10. In a session that holds two or more todos with the id \<open>t\<close>, read by the caller
  of the tools: after \<open>deleteTodo\<close> the stored todos are the former ones without every
  entry whose id is \<open>t\<close>, in their order, so none with that id is left; after
  \<open>updateTodo\<close> they are the former ones with the status set in the first entry whose
  id is \<open>t\<close> and every other entry, the later duplicates among them, as it was.
\<close>

theorem todos_with_duplicate_ids:
  assumes "ctx_runtime ctx = mock"
    and "get mock (ctx_store ctx) sid (ctx_userId ctx) (world p) = (Inr (Some s), world p)"
    and "2 \<le> length (filter (\<lambda>x. t_id x = t) (s_todos s))"
    and "valid_time (clock (world p) (reads (world p)))"
  shows "(\<exists>s' w'. w' = world (snd (deleteTodo \<lparr> d_session_id = sid, d_todo_id = t \<rparr> ctx p))
            \<and> get mock (ctx_store ctx) sid (ctx_userId ctx) w' = (Inr (Some s'), w')
            \<and> s_todos s' = filter (\<lambda>x. t_id x \<noteq> t) (s_todos s)
            \<and> (\<forall>x \<in> set (s_todos s'). t_id x \<noteq> t))
       \<and> (\<exists>s' w' i. w' = world (snd (updateTodo \<lparr> u_session_id = sid, u_todo_id = t,
                                                  u_status = st \<rparr> ctx p))
            \<and> get mock (ctx_store ctx) sid (ctx_userId ctx) w' = (Inr (Some s'), w')
            \<and> i < length (s_todos s) \<and> t_id (s_todos s ! i) = t
            \<and> (\<forall>j < i. t_id (s_todos s ! j) \<noteq> t)
            \<and> s_todos s' = (s_todos s) [i := (s_todos s ! i) \<lparr> t_status := st \<rparr>]
            \<and> (\<forall>j < length (s_todos s). j \<noteq> i \<longrightarrow> s_todos s' ! j = s_todos s ! j))"
proof -
  have vs: "valid_session s"
    using get_Some_valid(1) [OF assms(2)] .
  then have vt: "list_all valid_todo (s_todos s)"
    by (simp add: valid_session_def)
  have "filter (\<lambda>x. t_id x = t) (s_todos s) \<noteq> []"
    using assms(3) by auto
  then have "\<exists>x \<in> set (s_todos s). t_id x = t"
    by (simp add: filter_empty_conv)
  then obtain i where i: "findIndex (\<lambda>x. t_id x = t) (s_todos s) = Some i"
    using findIndex_None [of "\<lambda>x. t_id x = t" "s_todos s"] by (cases "findIndex (\<lambda>x. t_id x = t) (s_todos s)") auto
  note first = findIndex_Some [OF i]
  let ?del = "filter (\<lambda>x. t_id x \<noteq> t) (s_todos s)"
  let ?upd = "(s_todos s) [i := (s_todos s ! i) \<lparr> t_status := st \<rparr>]"
  have vdel: "list_all valid_todo ?del"
    using vt by (simp add: list_all_iff)
  have vupd: "list_all valid_todo ?upd"
    using vt first by (auto simp: list_all_iff valid_todo_def dest!: set_update_subset_insert [THEN subsetD])
  note d = mock_update_then_get [OF assms(2), of "todos_update ?del"]
  have d1: "fst (update mock (ctx_store ctx) sid (todos_update ?del) (ctx_userId ctx) (world p)) = Inr ()"
    by (rule d(1)) (simp_all add: todos_update_def vdel assms(4))
  have d2: "get mock (ctx_store ctx) sid (ctx_userId ctx)
              (snd (update mock (ctx_store ctx) sid (todos_update ?del) (ctx_userId ctx) (world p)))
         = (Inr (Some ((spread s (todos_update ?del)) \<lparr> s_lastModified := clock (world p) (reads (world p)) \<rparr>)),
            snd (update mock (ctx_store ctx) sid (todos_update ?del) (ctx_userId ctx) (world p)))"
    by (rule d(2)) (simp_all add: todos_update_def vdel assms(4))
  note u = mock_update_then_get [OF assms(2), of "todos_update ?upd"]
  have u1: "fst (update mock (ctx_store ctx) sid (todos_update ?upd) (ctx_userId ctx) (world p)) = Inr ()"
    by (rule u(1)) (simp_all add: todos_update_def vupd assms(4))
  have u2: "get mock (ctx_store ctx) sid (ctx_userId ctx)
              (snd (update mock (ctx_store ctx) sid (todos_update ?upd) (ctx_userId ctx) (world p)))
         = (Inr (Some ((spread s (todos_update ?upd)) \<lparr> s_lastModified := clock (world p) (reads (world p)) \<rparr>)),
            snd (update mock (ctx_store ctx) sid (todos_update ?upd) (ctx_userId ctx) (world p)))"
    by (rule u(2)) (simp_all add: todos_update_def vupd assms(4))
  have deleted: "\<exists>s' w'. w' = world (snd (deleteTodo \<lparr> d_session_id = sid, d_todo_id = t \<rparr> ctx p))
            \<and> get mock (ctx_store ctx) sid (ctx_userId ctx) w' = (Inr (Some s'), w')
            \<and> s_todos s' = ?del \<and> (\<forall>x \<in> set (s_todos s'). t_id x \<noteq> t)"
    unfolding deleteTodo_run [OF assms(1,2) i d1]
    using d2 by (simp add: spread_def todos_update_def)
  have updated: "\<exists>s' w' i. w' = world (snd (updateTodo \<lparr> u_session_id = sid, u_todo_id = t,
                                                  u_status = st \<rparr> ctx p))
            \<and> get mock (ctx_store ctx) sid (ctx_userId ctx) w' = (Inr (Some s'), w')
            \<and> i < length (s_todos s) \<and> t_id (s_todos s ! i) = t
            \<and> (\<forall>j < i. t_id (s_todos s ! j) \<noteq> t)
            \<and> s_todos s' = (s_todos s) [i := (s_todos s ! i) \<lparr> t_status := st \<rparr>]
            \<and> (\<forall>j < length (s_todos s). j \<noteq> i \<longrightarrow> s_todos s' ! j = s_todos s ! j)"
    unfolding updateTodo_run [OF assms(1,2) i u1]
    using u2 first by (auto simp: spread_def todos_update_def intro!: exI [of _ i])
  from deleted updated show ?thesis by (rule conjI)
qed


theorem todos_with_duplicate_ids_witness:
  "2 \<le> length (filter (\<lambda>x. t_id x = ''abc123def456'') (s_todos alice_session))
   \<and> (\<exists>s'. get mock test_store (s_id alice_session) (Some ''alice'')
              (world (snd (deleteTodo \<lparr> d_session_id = s_id alice_session,
                                        d_todo_id = ''abc123def456'' \<rparr> alice_context process1)))
            = (Inr (Some s'), world (snd (deleteTodo \<lparr> d_session_id = s_id alice_session,
                                        d_todo_id = ''abc123def456'' \<rparr> alice_context process1)))
          \<and> map t_title (s_todos s') = [''task 2''])
   \<and> (\<exists>s'. get mock test_store (s_id alice_session) (Some ''alice'')
              (world (snd (updateTodo \<lparr> u_session_id = s_id alice_session,
                     u_todo_id = ''abc123def456'', u_status = Done \<rparr> alice_context process1)))
            = (Inr (Some s'), world (snd (updateTodo \<lparr> u_session_id = s_id alice_session,
                     u_todo_id = ''abc123def456'', u_status = Done \<rparr> alice_context process1)))
          \<and> map t_title (s_todos s') = [''task 1'', ''task 2'', ''task 3'']
          \<and> map t_status (s_todos s') = [Done, Pending, Pending])"
proof -
  have two: "2 \<le> length (filter (\<lambda>x. t_id x = ''abc123def456'') (s_todos alice_session))"
    by (simp add: alice_session_def)
  have rt: "ctx_runtime alice_context = mock"
    by (simp add: alice_context_def)
  have g: "get mock (ctx_store alice_context) (s_id alice_session) (ctx_userId alice_context)
      (world process1) = (Inr (Some alice_session), world process1)"
    using world1_get_alice by (simp add: alice_context_def process1_def)
  have v: "valid_time (clock (world process1) (reads (world process1)))"
    by (simp add: process1_def world1_def world0_def valid_time_def)
  note T = todos_with_duplicate_ids [OF rt g two v, of Done]
  have ctx: "ctx_store alice_context = test_store" "ctx_userId alice_context = Some ''alice''"
    by (simp_all add: alice_context_def)
  have del: "filter (\<lambda>x. t_id x \<noteq> ''abc123def456'') (s_todos alice_session)
      = [s_todos alice_session ! Suc 0]"
    by (simp add: alice_session_def)
  have titles: "map t_title (s_todos alice_session) = [''task 1'', ''task 2'', ''task 3'']"
    "map t_status (s_todos alice_session) = [Pending, Pending, Pending]"
    "t_title (s_todos alice_session ! Suc 0) = ''task 2''"
    "t_id (s_todos alice_session ! 0) = ''abc123def456''"
    by (simp_all add: alice_session_def)
  from T [THEN conjunct1] have D: "\<exists>s'. get mock test_store (s_id alice_session) (Some ''alice'')
              (world (snd (deleteTodo \<lparr> d_session_id = s_id alice_session,
                                        d_todo_id = ''abc123def456'' \<rparr> alice_context process1)))
            = (Inr (Some s'), world (snd (deleteTodo \<lparr> d_session_id = s_id alice_session,
                                        d_todo_id = ''abc123def456'' \<rparr> alice_context process1)))
          \<and> map t_title (s_todos s') = [''task 2'']"
    unfolding ctx del by (auto simp: titles)
  from T [THEN conjunct2] obtain s' i where
    s': "get mock test_store (s_id alice_session) (Some ''alice'')
              (world (snd (updateTodo \<lparr> u_session_id = s_id alice_session,
                     u_todo_id = ''abc123def456'', u_status = Done \<rparr> alice_context process1)))
            = (Inr (Some s'), world (snd (updateTodo \<lparr> u_session_id = s_id alice_session,
                     u_todo_id = ''abc123def456'', u_status = Done \<rparr> alice_context process1)))"
    and i: "\<forall>j < i. t_id (s_todos alice_session ! j) \<noteq> ''abc123def456''"
    and todos: "s_todos s' = (s_todos alice_session) [i := (s_todos alice_session ! i) \<lparr> t_status := Done \<rparr>]"
    unfolding ctx by auto
  have "i = 0"
    using i titles(4) by (cases i) auto
  then have "map t_title (s_todos s') = [''task 1'', ''task 2'', ''task 3'']"
    "map t_status (s_todos s') = [Done, Pending, Pending]"
    unfolding todos by (simp_all add: alice_session_def)
  with s' have U: "\<exists>s'. get mock test_store (s_id alice_session) (Some ''alice'')
              (world (snd (updateTodo \<lparr> u_session_id = s_id alice_session,
                     u_todo_id = ''abc123def456'', u_status = Done \<rparr> alice_context process1)))
            = (Inr (Some s'), world (snd (updateTodo \<lparr> u_session_id = s_id alice_session,
                     u_todo_id = ''abc123def456'', u_status = Done \<rparr> alice_context process1)))
          \<and> map t_title (s_todos s') = [''task 1'', ''task 2'', ''task 3'']
          \<and> map t_status (s_todos s') = [Done, Pending, Pending]"
    by (intro exI [of _ s'] conjI)
  from two D U show ?thesis by (intro conjI)
qed


section \<open>Deleting a session and the lock table\<close>

lemma sessionLocks_runExclusive: "sessionLocks (snd (runExclusive f p)) = sessionLocks p"
  by (simp add: runExclusive_def split: prod.splits)

lemma sessionLocks_in_process: "sessionLocks (snd (in_process f p)) = sessionLocks p"
  by (simp add: in_process_def split: prod.splits)

lemma sessionLocks_updateTodo:
  "sessionLocks (snd (updateTodo input ctx p)) = insert (u_session_id input) (sessionLocks p)"
  by (simp add: updateTodo_def Let_def sessionLocks_runExclusive sessionLocks_getSessionLock)

lemma delete_in_mock:
  "get mock this sid c w = (Inr None, w) \<Longrightarrow>
     delete mock this sid c w = (Inl (SessionNotFoundError sid), w)"
  "get mock this sid c w = (Inl e, w) \<Longrightarrow> delete mock this sid c w = (Inl e, w)"
  "get mock this sid c w = (Inr (Some s), w) \<Longrightarrow>
     delete mock this sid c w = (Inr (), w \<lparr> mockData := (mockData w)(getKey this sid := None) \<rparr>)"
  by (simp_all add: delete_absent delete_get_rejects mock_delete)

text \<open>
  C6 on the code. \<^verbatim>\<open>alice\<close> marks a todo of her session done, which puts a Mutex for the
  session into the lock table, and then the session is deleted through the store. The
  delete resolves and the key is gone from the server, but the session's entry is still
  in the lock table: \<open>delete\<close> never calls \<open>removeSessionLock\<close>, which would have
  emptied the table.
\<close>

theorem delete_leaves_session_lock:
  "sessionLocks process1 = {}
   \<and> s_id alice_session \<in> sessionLocks (snd (updateTodo
         \<lparr> u_session_id = s_id alice_session, u_todo_id = ''xyz789ghi012'', u_status = Done \<rparr>
         alice_context process1))
   \<and> fst (in_process (delete mock test_store (s_id alice_session) (Some ''alice''))
          (snd (updateTodo
             \<lparr> u_session_id = s_id alice_session, u_todo_id = ''xyz789ghi012'', u_status = Done \<rparr>
             alice_context process1))) = Inr ()
   \<and> mockData (world (snd (in_process (delete mock test_store (s_id alice_session) (Some ''alice''))
          (snd (updateTodo
             \<lparr> u_session_id = s_id alice_session, u_todo_id = ''xyz789ghi012'', u_status = Done \<rparr>
             alice_context process1)))))
        (getKey test_store (s_id alice_session)) = None
   \<and> s_id alice_session \<in> sessionLocks (snd (in_process
          (delete mock test_store (s_id alice_session) (Some ''alice''))
          (snd (updateTodo
             \<lparr> u_session_id = s_id alice_session, u_todo_id = ''xyz789ghi012'', u_status = Done \<rparr>
             alice_context process1))))
   \<and> sessionLocks (removeSessionLock (s_id alice_session) (snd (in_process
          (delete mock test_store (s_id alice_session) (Some ''alice''))
          (snd (updateTodo
             \<lparr> u_session_id = s_id alice_session, u_todo_id = ''xyz789ghi012'', u_status = Done \<rparr>
             alice_context process1))))) = {}"
proof -
  let ?input = "\<lparr> u_session_id = s_id alice_session, u_todo_id = ''xyz789ghi012'',
                  u_status = Done \<rparr>"
  let ?p1 = "snd (updateTodo ?input alice_context process1)"
  let ?del = "delete mock test_store (s_id alice_session) (Some ''alice'')"
  let ?todos = "(s_todos alice_session) [Suc 0 := (s_todos alice_session ! Suc 0) \<lparr> t_status := Done \<rparr>]"
  have rt: "ctx_runtime alice_context = mock"
    and ctx: "ctx_store alice_context = test_store" "ctx_userId alice_context = Some ''alice''"
    by (simp_all add: alice_context_def)
  have w: "world process1 = world1" and l: "sessionLocks process1 = {}"
    by (simp_all add: process1_def)
  have g: "get mock (ctx_store alice_context) (s_id alice_session) (ctx_userId alice_context)
      (world process1) = (Inr (Some alice_session), world process1)"
    using world1_get_alice by (simp add: ctx w)
  have i: "findIndex (\<lambda>x. t_id x = ''xyz789ghi012'') (s_todos alice_session) = Some (Suc 0)"
    by (simp add: alice_session_def)
  have vt: "list_all valid_todo ?todos"
    by (simp add: alice_session_def valid_todo_def valid_time_def)
  have v: "valid_time (clock world1 (reads world1))"
    by (simp add: world1_def world0_def valid_time_def)
  note u = mock_update_then_get [OF world1_get_alice, of "todos_update ?todos"]
  have u1: "fst (update mock test_store (s_id alice_session) (todos_update ?todos)
      (Some ''alice'') world1) = Inr ()"
    by (rule u(1)) (simp_all add: todos_update_def vt v)
  have u2: "get mock test_store (s_id alice_session) (Some ''alice'')
      (snd (update mock test_store (s_id alice_session) (todos_update ?todos) (Some ''alice'') world1))
    = (Inr (Some ((spread alice_session (todos_update ?todos))
         \<lparr> s_lastModified := clock world1 (reads world1) \<rparr>)),
       snd (update mock test_store (s_id alice_session) (todos_update ?todos) (Some ''alice'') world1))"
    by (rule u(2)) (simp_all add: todos_update_def vt v)
  have w1: "world ?p1 = snd (update mock test_store (s_id alice_session) (todos_update ?todos)
      (Some ''alice'') world1)"
    using updateTodo_run [OF rt g i, of Done] u1 by (simp add: ctx w)
  have locked: "sessionLocks ?p1 = {s_id alice_session}"
    by (simp add: sessionLocks_updateTodo l)
  have d: "?del (world ?p1) = (Inr (), (world ?p1)
      \<lparr> mockData := (mockData (world ?p1))(getKey test_store (s_id alice_session) := None) \<rparr>)"
    unfolding w1 by (rule delete_in_mock(3) [OF u2])
  have r: "in_process ?del ?p1 = (Inr (), ?p1 \<lparr> world := (world ?p1)
      \<lparr> mockData := (mockData (world ?p1))(getKey test_store (s_id alice_session) := None) \<rparr> \<rparr>)"
    by (simp add: in_process_def d)
  show ?thesis
    unfolding r by (simp add: l locked removeSessionLock_def)
qed


section \<open>Adding a todo, one call at a time\<close>

lemma mock_get_same_data:
  assumes "get mock this sid c w = (Inr (Some s), w)" "mockData w' = mockData w"
  shows "get mock this sid c w' = (Inr (Some s), w')"
proof -
  from mock_get_Some(2) [OF assms(1)] obtain d ttl
    where st: "mockData w (getKey this sid) = Some (d, ttl)" and ds: "deserializeSession d = Some s"
    by blast
  have ok: "\<not> (s_userId s \<noteq> None \<and> (c = None \<or> c \<noteq> s_userId s))"
    using get_Some_valid(2) [OF assms(1)] .
  have "mockData w' (getKey this sid) = Some (d, ttl)"
    using st assms(2) by simp
  from mock_get [OF this ds, of c] ok show ?thesis by auto
qed

text \<open>
  A call of \<open>addTodo\<close> that runs alone on a session its caller may read resolves with the
  encoded todo, and the session then holds its former todos followed by the new one: a
  pending todo with the next generated id and the time of the clock.
\<close>

lemma addTodo_appends:
  assumes "ctx_runtime ctx = mock"
    and "get mock (ctx_store ctx) (a_session_id input) (ctx_userId ctx) (world p)
         = (Inr (Some s), world p)"
    and "valid_time (clock (world p) (reads (world p)))"
    and "valid_time (clock (world p) (reads (world p) + 1))"
  defines "todo \<equiv> \<lparr> t_id = ids (world p) (drawn (world p)), t_title = a_title input,
                      t_description = a_description input, t_tags = a_tags input,
                      t_status = Pending, t_createdAt = clock (world p) (reads (world p)) \<rparr>"
  shows "fst (addTodo input ctx p) = Inr (encodeTodo (ctx_encoder ctx) todo)"
    and "\<exists>s'. get mock (ctx_store ctx) (a_session_id input) (ctx_userId ctx)
                (world (snd (addTodo input ctx p)))
              = (Inr (Some s'), world (snd (addTodo input ctx p)))
            \<and> s_todos s' = s_todos s @ [todo]"
proof -
  let ?w = "world p"
  let ?w2 = "?w \<lparr> drawn := drawn ?w + 1, reads := reads ?w + 1 \<rparr>"
  let ?sid = "a_session_id input"
  let ?u = "todos_update (s_todos s @ [todo])"
  have g2: "get mock (ctx_store ctx) ?sid (ctx_userId ctx) ?w2 = (Inr (Some s), ?w2)"
    by (rule mock_get_same_data [OF assms(2)]) simp
  have vs: "list_all valid_todo (s_todos s)"
    using get_Some_valid(1) [OF assms(2)] by (simp add: valid_session_def)
  have vt: "list_all valid_todo (s_todos s @ [todo])"
    using vs assms(3) by (simp add: valid_todo_def todo_def)
  note u = mock_update_then_get [OF g2, of ?u]
  have u1: "fst (update mock (ctx_store ctx) ?sid ?u (ctx_userId ctx) ?w2) = Inr ()"
    by (rule u(1)) (use vt assms(4) in \<open>simp_all add: todos_update_def\<close>)
  have u2: "get mock (ctx_store ctx) ?sid (ctx_userId ctx)
              (snd (update mock (ctx_store ctx) ?sid ?u (ctx_userId ctx) ?w2))
         = (Inr (Some ((spread s ?u) \<lparr> s_lastModified := clock ?w2 (reads ?w2) \<rparr>)),
            snd (update mock (ctx_store ctx) ?sid ?u (ctx_userId ctx) ?w2))"
    by (rule u(2)) (use vt assms(4) in \<open>simp_all add: todos_update_def\<close>)
  obtain w' where upd: "update mock (ctx_store ctx) ?sid ?u (ctx_userId ctx) ?w2 = (Inr (), w')"
    using u1 by (metis prod.collapse)
  have run: "addTodo input ctx p
      = (Inr (encodeTodo (ctx_encoder ctx) todo), (getSessionLock ?sid p) \<lparr> world := w' \<rparr>)"
    unfolding addTodo_def
    by (simp add: Let_def runExclusive_def catch_def await_def sync_def resolve_def assms(1,2)
        mock_commands world_getSessionLock upd [unfolded todo_def, simplified] todo_def)
  show "fst (addTodo input ctx p) = Inr (encodeTodo (ctx_encoder ctx) todo)"
    unfolding run by simp
  show "\<exists>s'. get mock (ctx_store ctx) ?sid (ctx_userId ctx) (world (snd (addTodo input ctx p)))
              = (Inr (Some s'), world (snd (addTodo input ctx p)))
            \<and> s_todos s' = s_todos s @ [todo]"
    unfolding run using u2 unfolding upd by (simp add: spread_def todos_update_def)
qed


end
